theory Spec2Isabelle
  imports Main "HOL-Library.Char_ord" "HOL-Library.List_Lexorder" "HOL-Library.Multiset"
begin

section \<open>Strings\<close>

text \<open>
  Go strings are byte sequences; \<^typ>\<open>string\<close> is a list of 8-bit characters. The
  functions of package \<^verbatim>\<open>strings\<close> that the service calls are modelled on bytes. Every
  separator the service passes (\<^verbatim>\<open>"."\<close>, \<^verbatim>\<open>"/"\<close>) is one byte long, so \<open>Split\<close> and
  \<open>SplitN\<close> take the separator as a character.
\<close>

definition HasPrefix :: "string \<Rightarrow> string \<Rightarrow> bool" where
  "HasPrefix s p = (take (length p) s = p)"

definition TrimPrefix :: "string \<Rightarrow> string \<Rightarrow> string" where
  "TrimPrefix s p = (if HasPrefix s p then drop (length p) s else s)"

definition HasSuffix :: "string \<Rightarrow> string \<Rightarrow> bool" where
  "HasSuffix s p = (length p \<le> length s \<and> drop (length s - length p) s = p)"

definition TrimSuffix :: "string \<Rightarrow> string \<Rightarrow> string" where
  "TrimSuffix s p = (if HasSuffix s p then take (length s - length p) s else s)"

text \<open>\<^verbatim>\<open>strings.SplitN(s, sep, n)\<close> for \<open>n \<ge> 0\<close>: at most \<open>n\<close> pieces, the last one unsplit.\<close>

fun SplitN :: "string \<Rightarrow> char \<Rightarrow> nat \<Rightarrow> string list" where
  "SplitN s sep 0 = []"
| "SplitN s sep (Suc 0) = [s]"
| "SplitN [] sep (Suc (Suc n)) = [[]]"
| "SplitN (c # cs) sep (Suc (Suc n)) =
     (if c = sep then [] # SplitN cs sep (Suc n)
      else (case SplitN cs sep (Suc (Suc n)) of
              [] \<Rightarrow> [[c]]
            | p # ps \<Rightarrow> (c # p) # ps))"

text \<open>\<^verbatim>\<open>strings.Split(s, sep)\<close>: every piece; the empty string gives one empty piece.\<close>

fun Split :: "string \<Rightarrow> char \<Rightarrow> string list" where
  "Split [] sep = [[]]"
| "Split (c # cs) sep =
     (if c = sep then [] # Split cs sep
      else (case Split cs sep of
              [] \<Rightarrow> [[c]]
            | p # ps \<Rightarrow> (c # p) # ps))"

text \<open>\<^verbatim>\<open>strings.Trim(s, cutset)\<close>: drops the leading and trailing bytes that are in \<open>cutset\<close>.\<close>

definition Trim :: "string \<Rightarrow> string \<Rightarrow> string" where
  "Trim s cutset =
     rev (dropWhile (\<lambda>c. c \<in> set cutset) (rev (dropWhile (\<lambda>c. c \<in> set cutset) s)))"

text \<open>\<^verbatim>\<open>strings.Cut(s, sep)\<close> without its flag: the text before and after the first \<open>sep\<close>.\<close>

definition Cut :: "string \<Rightarrow> char \<Rightarrow> string \<times> string" where
  "Cut s sep = (takeWhile (\<lambda>c. c \<noteq> sep) s, tl (dropWhile (\<lambda>c. c \<noteq> sep) s))"

text \<open>The byte classes of ASCII letters and digits.\<close>

definition isLetter :: "char \<Rightarrow> bool" where
  "isLetter c = ((CHR ''a'' \<le> c \<and> c \<le> CHR ''z'') \<or> (CHR ''A'' \<le> c \<and> c \<le> CHR ''Z''))"

definition isDigit :: "char \<Rightarrow> bool" where
  "isDigit c = (CHR ''0'' \<le> c \<and> c \<le> CHR ''9'')"

section \<open>Preview hosts\<close>

definition removePreviewFromHost :: "string \<Rightarrow> string" where
  "removePreviewFromHost host =
     (if HasPrefix host ''preview.'' then TrimPrefix host ''preview.''
      else
        let parts = SplitN host (CHR ''.'') 2 in
        if length parts = 2 \<and> HasSuffix (parts ! 0) ''-preview''
        then TrimSuffix (parts ! 0) ''-preview'' @ ''.'' @ parts ! 1
        else host)"

section \<open>Package net/url\<close>

text \<open>
  The service builds its query with \<^verbatim>\<open>url.Values\<close>, serialises it with \<^verbatim>\<open>Values.Encode\<close> and
  reads a query back with \<^verbatim>\<open>URL.Query\<close>. These library functions decide the canonical order
  and the round trip, so they are modelled after the Go sources of \<^verbatim>\<open>net/url\<close>.
\<close>

subsection \<open>Escaping of query components\<close>

definition shouldEscape :: "char \<Rightarrow> bool" where
  \<comment> \<open>mode \<^verbatim>\<open>encodeQueryComponent\<close>: letters, digits and \<^verbatim>\<open>- _ . ~\<close> are kept.\<close>
  "shouldEscape c =
     (if (CHR ''a'' \<le> c \<and> c \<le> CHR ''z'') \<or> (CHR ''A'' \<le> c \<and> c \<le> CHR ''Z'')
          \<or> (CHR ''0'' \<le> c \<and> c \<le> CHR ''9'')
      then False
      else if c = CHR ''-'' \<or> c = CHR ''_'' \<or> c = CHR ''.'' \<or> c = CHR ''~''
      then False
      else True)"

definition upperhex :: string where
  "upperhex = ''0123456789ABCDEF''"

definition escapeByte :: "char \<Rightarrow> string" where
  "escapeByte c =
     (if shouldEscape c
      then (if c = CHR '' '' then ''+''
            else [CHR ''%'', upperhex ! (of_char c div 16), upperhex ! (of_char c mod 16)])
      else [c])"

definition QueryEscape :: "string \<Rightarrow> string" where
  "QueryEscape s = concat (map escapeByte s)"

definition ishex :: "char \<Rightarrow> bool" where
  "ishex c =
     ((CHR ''0'' \<le> c \<and> c \<le> CHR ''9'') \<or> (CHR ''a'' \<le> c \<and> c \<le> CHR ''f'')
      \<or> (CHR ''A'' \<le> c \<and> c \<le> CHR ''F''))"

definition unhex :: "char \<Rightarrow> nat" where
  "unhex c =
     (if CHR ''0'' \<le> c \<and> c \<le> CHR ''9'' then of_char c - of_char (CHR ''0'')
      else if CHR ''a'' \<le> c \<and> c \<le> CHR ''f'' then of_char c - of_char (CHR ''a'') + 10
      else if CHR ''A'' \<le> c \<and> c \<le> CHR ''F'' then of_char c - of_char (CHR ''A'') + 10
      else 0)"

text \<open>\<^verbatim>\<open>url.QueryUnescape\<close>: \<open>None\<close> is the \<^verbatim>\<open>EscapeError\<close> of a \<^verbatim>\<open>%\<close> without two hex digits.\<close>

fun QueryUnescape :: "string \<Rightarrow> string option" where
  "QueryUnescape [] = Some []"
| "QueryUnescape (c # cs) =
     (if c = CHR ''%'' then
        (case cs of
           a # b # rest \<Rightarrow>
             (if ishex a \<and> ishex b
              then map_option ((#) (char_of (unhex a * 16 + unhex b))) (QueryUnescape rest)
              else None)
         | _ \<Rightarrow> None)
      else if c = CHR ''+'' then map_option ((#) (CHR '' '')) (QueryUnescape cs)
      else map_option ((#) c) (QueryUnescape cs))"

subsection \<open>Values\<close>

text \<open>
  \<^verbatim>\<open>url.Values\<close> is \<^verbatim>\<open>map[string][]string\<close>. The model is an association list with one
  entry per key, kept in the order in which the keys were first added: a Go map has no
  order of its own, and \<open>Encode\<close> is the function that must not depend on this one.
\<close>

type_synonym Values = "(string \<times> string list) list"

definition Add :: "Values \<Rightarrow> string \<Rightarrow> string \<Rightarrow> Values" where
  "Add v key val =
     (case map_of v key of
        None \<Rightarrow> v @ [(key, [val])]
      | Some _ \<Rightarrow> map (\<lambda>(k, vs). if k = key then (k, vs @ [val]) else (k, vs)) v)"

definition Get :: "Values \<Rightarrow> string \<Rightarrow> string" where
  "Get v key =
     (case map_of v key of
        None \<Rightarrow> ''''
      | Some [] \<Rightarrow> ''''
      | Some (x # _) \<Rightarrow> x)"

definition lookup :: "Values \<Rightarrow> string \<Rightarrow> string list" where
  \<comment> \<open>the map index \<^verbatim>\<open>v[k]\<close>: a missing key reads as the empty slice\<close>
  "lookup v k = (case map_of v k of None \<Rightarrow> [] | Some vs \<Rightarrow> vs)"

text \<open>
  \<^verbatim>\<open>Values.Encode\<close>: the keys in sorted order (Go compares strings bytewise, as the
  lexicographic order on \<^typ>\<open>string\<close> does), each value written as \<^verbatim>\<open>key=value\<close> with both
  sides escaped, and \<^verbatim>\<open>&\<close> before every pair but the first written.
\<close>

definition Encode :: "Values \<Rightarrow> string" where
  "Encode v =
     (if v = [] then ''''
      else
        foldl (\<lambda>buf k.
            let vs = lookup v k; keyEscaped = QueryEscape k in
            foldl (\<lambda>buf x.
                (if buf \<noteq> [] then buf @ ''&'' else buf) @ keyEscaped @ ''='' @ QueryEscape x)
              buf vs)
          '''' (sort (map fst v)))"

lemma Cut_snd_shorter: "s \<noteq> [] \<Longrightarrow> length (snd (Cut s c)) < length s"
proof (cases s)
  case Nil
  assume "s \<noteq> []"
  with Nil show ?thesis by simp
next
  case (Cons a l)
  have "length (dropWhile (\<lambda>x. x \<noteq> c) l) \<le> length l"
    by (rule length_dropWhile_le)
  then show ?thesis using Cons by (simp add: Cut_def, arith)
qed

text \<open>
  \<^verbatim>\<open>parseQuery\<close>, the loop behind \<^verbatim>\<open>URL.Query\<close>: a piece with a semicolon, an empty piece and a
  piece whose key or value does not unescape are skipped; \<^verbatim>\<open>Query\<close> drops the error.
\<close>

function parseQuery :: "Values \<Rightarrow> string \<Rightarrow> Values" where
  "parseQuery m query =
     (if query = [] then m
      else
        let key = fst (Cut query (CHR ''&'')); rest = snd (Cut query (CHR ''&'')) in
        if CHR '';'' \<in> set key then parseQuery m rest
        else if key = [] then parseQuery m rest
        else
          let k = fst (Cut key (CHR ''='')); v = snd (Cut key (CHR ''='')) in
          case QueryUnescape k of
            None \<Rightarrow> parseQuery m rest
          | Some k' \<Rightarrow>
              (case QueryUnescape v of
                 None \<Rightarrow> parseQuery m rest
               | Some v' \<Rightarrow> parseQuery (Add m k' v') rest))"
  by pat_completeness auto
termination
  by (relation "measure (\<lambda>(m, query). length query)") (auto simp: Cut_snd_shorter)

declare parseQuery.simps [simp del]

subsection \<open>URL\<close>

text \<open>The fields of \<^verbatim>\<open>url.URL\<close> that the service reads.\<close>

record URL =
  URL_Scheme :: string
  URL_Host :: string
  URL_Path :: string
  URL_RawQuery :: string

definition Query :: "URL \<Rightarrow> Values" where
  "Query u = parseQuery [] (URL_RawQuery u)"

section \<open>Data model\<close>

text \<open>
  The request and response structs of package \<^verbatim>\<open>models\<close>, with the field names the service
  uses. Every field is a Go string, whose zero value is the empty string.
\<close>

record DurableLinkCreationWarning =
  WarningCode :: string
  WarningMessage :: string

record AndroidParameters =
  AndroidPackageName :: string
  AndroidFallbackLink :: string
  AndroidMinPackageVersionCode :: string

record IosParameters =
  IosAppStoreId :: string
  IosFallbackLink :: string
  IosIpadFallbackLink :: string

record OtherPlatformParameters =
  FallbackURL :: string

record SocialMetaTagInfo =
  SocialTitle :: string
  SocialDescription :: string
  SocialImageLink :: string

record MarketingParameters =
  UtmSource :: string
  UtmMedium :: string
  UtmCampaign :: string
  UtmTerm :: string
  UtmContent :: string

record ItunesConnectAnalytics =
  At :: string
  Ct :: string
  Mt :: string
  Pt :: string

record AnalyticsInfo =
  MarketingParameters :: MarketingParameters
  ItunesConnectAnalytics :: ItunesConnectAnalytics

record DurableLinkInfo =
  Host :: string
  Link :: string
  AndroidParameters :: AndroidParameters
  IosParameters :: IosParameters
  OtherPlatformParameters :: OtherPlatformParameters
  SocialMetaTagInfo :: SocialMetaTagInfo
  AnalyticsInfo :: AnalyticsInfo

record Suffix =
  Option :: string

record CreateDurableLinkRequest =
  DurableLinkInfo :: DurableLinkInfo
  Suffix :: Suffix

record ShortLinkResponse =
  ShortLink :: string
  Warnings :: "DurableLinkCreationWarning list"

record LongLinkResponse =
  LongLink :: string

text \<open>\<^verbatim>\<open>config.AppConfig\<close>; a nil \<^verbatim>\<open>*string\<close> is \<open>None\<close>.\<close>

record AppConfig =
  ShortPathLength :: int
  UnguessablePathLength :: int
  DefaultAndroidPackageName :: "string option"
  DefaultIosStoreId :: "string option"
  URLScheme :: string
  AllowedDomains :: "string list"

record Config =
  App :: AppConfig

text \<open>
  Errors are values. The named ones are the variables of package \<^verbatim>\<open>apperrors\<close> and
  \<^verbatim>\<open>sql.ErrNoRows\<close>; \<open>Wrapped msg e\<close> is \<^verbatim>\<open>fmt.Errorf("msg: %w", e)\<close>; \<open>ErrDuplicatePath\<close> and
  \<open>ErrOther\<close> stand for what a collaborator outside the service may return.
\<close>

datatype error =
    ErrInvalidRequestedLink
  | ErrInvalidPathFormat
  | ErrDomainLinkNotAllowed
  | ErrInvalidAppStoreID
  | ErrInvalidURLFormat
  | ErrHostInvalid
  | ErrMissingHost
  | ErrMissingLink
  | ErrInvalidFormat
  | ErrNoRows
  | ErrDuplicatePath
  | ErrOther string
  | Wrapped string error

text \<open>
  A decoded JSON value, the \<^verbatim>\<open>any\<close> of the \<^verbatim>\<open>map[string]any\<close> that a request body becomes.
  (A number is a \<^verbatim>\<open>float64\<close> in Go; the service never inspects one.)
\<close>

datatype any =
    AnyNil
  | AnyBool bool
  | AnyNumber int
  | AnyString string
  | AnyList "any list"
  | AnyMap "(string \<times> any) list"

section \<open>Collaborators\<close>

text \<open>
  The repository, the helpers of package \<^verbatim>\<open>utils\<close> and two library functions are called
  by the service, and their code is not part of it. They are parameters of the model: every
  theorem about the service holds for whatever these functions are. The persistent store
  \<open>'s\<close> and the state \<open>'r\<close> of the random source are passed explicitly.
\<close>

record 's LinkRepository =
  GetQueryParamsByHostAndPath :: "'s \<Rightarrow> string \<Rightarrow> string \<Rightarrow> error + string"
  FindExistingShortLink :: "'s \<Rightarrow> string \<Rightarrow> string \<Rightarrow> error + string"
  CreateShortLink :: "'s \<Rightarrow> string \<Rightarrow> string \<Rightarrow> string \<Rightarrow> bool \<Rightarrow> error option \<times> 's"

record 'r Utils =
  CleanHost :: "string \<Rightarrow> error + string"
  IsDomainAllowed :: "string list \<Rightarrow> string \<Rightarrow> bool"
  IsNumericString :: "string \<Rightarrow> bool"
  IsURL :: "string \<Rightarrow> bool"
  ValidateURLScheme :: "string \<Rightarrow> error option"
  GenerateRandomAlphanumericString :: "'r \<Rightarrow> int \<Rightarrow> string \<times> 'r"

text \<open>
  \<open>url_Parse\<close> is \<^verbatim>\<open>url.Parse\<close> (\<open>None\<close> when it returns an error); \<open>json_Decode\<close> is
  \<^verbatim>\<open>json.Marshal\<close> followed by \<^verbatim>\<open>json.Unmarshal\<close> into a request (\<open>None\<close> when either fails).
\<close>

record Lib =
  url_Parse :: "string \<Rightarrow> URL option"
  json_Decode :: "(string \<rightharpoonup> any) \<Rightarrow> CreateDurableLinkRequest option"

text \<open>
  The Go struct \<^verbatim>\<open>linkService\<close> holds \<open>repo\<close> and \<open>cfg\<close>; the packages it imports are
  carried along in the same record.
\<close>

record ('s, 'r) linkService =
  repo :: "'s LinkRepository"
  cfg :: Config
  utils :: "'r Utils"
  lib :: Lib

section \<open>The link service\<close>

definition getLongLinkFromHostAndPath ::
  "('s, 'r) linkService \<Rightarrow> 's \<Rightarrow> string \<Rightarrow> string \<Rightarrow> error + LongLinkResponse" where
  "getLongLinkFromHostAndPath s db host path =
     (case GetQueryParamsByHostAndPath (repo s) db host path of
        Inl err \<Rightarrow> Inl err
      | Inr rawQueryStr \<Rightarrow>
          let longLink = URLScheme (App (cfg s)) @ ''://'' @ host @ ''/'' @ path in
          Inr \<lparr>LongLink = (if rawQueryStr \<noteq> [] then longLink @ ''?'' @ rawQueryStr else longLink)\<rparr>)"

definition findExistingShortLink ::
  "('s, 'r) linkService \<Rightarrow> 's \<Rightarrow> string \<Rightarrow> string \<Rightarrow> error + string" where
  "findExistingShortLink s db host rawQS = FindExistingShortLink (repo s) db host rawQS"

definition createShortLink ::
  "('s, 'r) linkService \<Rightarrow> 's \<Rightarrow> string \<Rightarrow> string \<Rightarrow> string \<Rightarrow> bool \<Rightarrow> error option \<times> 's" where
  "createShortLink s db host path rawQS unguessable =
     CreateShortLink (repo s) db host path rawQS unguessable"

text \<open>
  \<open>allocateShortLink\<close> is the second half of \<^verbatim>\<open>createOrGetShortLink\<close> (from the choice of the
  length on), which the function reaches on three paths.
\<close>

definition allocateShortLink ::
  "('s, 'r) linkService \<Rightarrow> 's \<Rightarrow> 'r \<Rightarrow> string \<Rightarrow> string \<Rightarrow> bool
     \<Rightarrow> (error + ShortLinkResponse) \<times> 's \<times> 'r" where
  "allocateShortLink s db rnd host rawQS shortPath =
     (let len = (if \<not> shortPath then UnguessablePathLength (App (cfg s))
                 else ShortPathLength (App (cfg s)));
          generated = GenerateRandomAlphanumericString (utils s) rnd len;
          path = fst generated;
          rnd' = snd generated;
          stored = createShortLink s db host path rawQS (\<not> shortPath);
          db' = snd stored
      in case fst stored of
           Some err \<Rightarrow> (Inl (Wrapped ''failed to store link'' err), db', rnd')
         | None \<Rightarrow>
             (Inr \<lparr>ShortLink = URLScheme (App (cfg s)) @ ''://'' @ host @ ''/'' @ path,
                   Warnings = []\<rparr>, db', rnd'))"

definition createOrGetShortLink ::
  "('s, 'r) linkService \<Rightarrow> 's \<Rightarrow> 'r \<Rightarrow> string \<Rightarrow> Values \<Rightarrow> bool
     \<Rightarrow> (error + ShortLinkResponse) \<times> 's \<times> 'r" where
  "createOrGetShortLink s db rnd host queryParams shortPath =
     (let rawQS = Encode queryParams in
      if shortPath then
        (case findExistingShortLink s db host rawQS of
           Inr path \<Rightarrow>
             (Inr \<lparr>ShortLink = URLScheme (App (cfg s)) @ ''://'' @ host @ ''/'' @ path,
                   Warnings = []\<rparr>, db, rnd)
         | Inl err \<Rightarrow>
             if err \<noteq> ErrNoRows then (Inl err, db, rnd)
             else allocateShortLink s db rnd host rawQS shortPath)
      else allocateShortLink s db rnd host rawQS shortPath)"

text \<open>
  Between its validation and the allocation, \<^verbatim>\<open>CreateDurableLink\<close> builds two values that
  do not depend on one another: the query parameters and the warnings. Each is given here
  in the order of the source. \<open>addParam\<close> is the closure of the same name.
\<close>

definition addParam :: "Values \<Rightarrow> string \<Rightarrow> string \<Rightarrow> Values" where
  "addParam queryParams key val = (if val \<noteq> [] then Add queryParams key val else queryParams)"

definition linkQueryParams :: "CreateDurableLinkRequest \<Rightarrow> Values" where
  "linkQueryParams params =
     (let info = DurableLinkInfo params;
          q = Add [] ''link'' (Link info);
          q = addParam q ''apn'' (AndroidPackageName (AndroidParameters info));
          q = addParam q ''afl'' (AndroidFallbackLink (AndroidParameters info));
          q = addParam q ''amv'' (AndroidMinPackageVersionCode (AndroidParameters info));
          q = addParam q ''ifl'' (IosFallbackLink (IosParameters info));
          q = addParam q ''ipfl'' (IosIpadFallbackLink (IosParameters info));
          q = addParam q ''isi'' (IosAppStoreId (IosParameters info));
          q = addParam q ''ofl'' (FallbackURL (OtherPlatformParameters info));
          q = addParam q ''st'' (SocialTitle (SocialMetaTagInfo info));
          q = addParam q ''sd'' (SocialDescription (SocialMetaTagInfo info));
          q = addParam q ''si'' (SocialImageLink (SocialMetaTagInfo info));
          q = addParam q ''utm_source'' (UtmSource (MarketingParameters (AnalyticsInfo info)));
          q = addParam q ''utm_medium'' (UtmMedium (MarketingParameters (AnalyticsInfo info)));
          q = addParam q ''utm_campaign'' (UtmCampaign (MarketingParameters (AnalyticsInfo info)));
          q = addParam q ''utm_term'' (UtmTerm (MarketingParameters (AnalyticsInfo info)));
          q = addParam q ''utm_content'' (UtmContent (MarketingParameters (AnalyticsInfo info)));
          q = addParam q ''pt'' (Pt (ItunesConnectAnalytics (AnalyticsInfo info)));
          q = addParam q ''at'' (At (ItunesConnectAnalytics (AnalyticsInfo info)));
          q = addParam q ''ct'' (Ct (ItunesConnectAnalytics (AnalyticsInfo info)));
          q = addParam q ''mt'' (Mt (ItunesConnectAnalytics (AnalyticsInfo info)))
      in q)"

definition unrecognized :: "string \<Rightarrow> string \<Rightarrow> DurableLinkCreationWarning" where
  "unrecognized p missing =
     \<lparr>WarningCode = ''UNRECOGNIZED_PARAM'',
      WarningMessage = ''Param '' @ [CHR 0x27] @ p @ [CHR 0x27] @ '' is not needed, since ''
        @ [CHR 0x27] @ missing @ [CHR 0x27] @ '' is not specified.''\<rparr>"

definition malformed_si :: DurableLinkCreationWarning where
  "malformed_si =
     \<lparr>WarningCode = ''MALFORMED_PARAM'',
      WarningMessage = ''Param '' @ [CHR 0x27] @ ''si'' @ [CHR 0x27] @ '' is not a valid URL''\<rparr>"

definition linkWarnings ::
  "('s, 'r) linkService \<Rightarrow> CreateDurableLinkRequest \<Rightarrow> DurableLinkCreationWarning list" where
  "linkWarnings s params =
     (let info = DurableLinkInfo params;
          isi = IosAppStoreId (IosParameters info);
          si = SocialImageLink (SocialMetaTagInfo info);
          itc = ItunesConnectAnalytics (AnalyticsInfo info);
          pt = Pt itc
      in (if si \<noteq> [] \<and> \<not> IsURL (utils s) si then [malformed_si] else [])
         @ (if isi = [] then
              (if At itc \<noteq> [] then [unrecognized ''at'' ''isi''] else [])
              @ (if Ct itc \<noteq> [] then [unrecognized ''ct'' ''isi''] else [])
              @ (if Mt itc \<noteq> [] then [unrecognized ''mt'' ''isi''] else [])
              @ (if pt \<noteq> [] then [unrecognized ''pt'' ''isi''] else [])
            else [])
         @ (if pt = [] then
              (if At itc \<noteq> [] then [unrecognized ''at'' ''pt''] else [])
              @ (if Ct itc \<noteq> [] then [unrecognized ''ct'' ''pt''] else [])
              @ (if Mt itc \<noteq> [] then [unrecognized ''mt'' ''pt''] else [])
            else []))"

definition CreateDurableLink ::
  "('s, 'r) linkService \<Rightarrow> 's \<Rightarrow> 'r \<Rightarrow> CreateDurableLinkRequest
     \<Rightarrow> (error + ShortLinkResponse) \<times> 's \<times> 'r" where
  "CreateDurableLink s db rnd params =
     (case CleanHost (utils s) (Host (DurableLinkInfo params)) of
        Inl err \<Rightarrow> (Inl (Wrapped ''invalid host'' err), db, rnd)
      | Inr host \<Rightarrow>
          if \<not> IsDomainAllowed (utils s) (AllowedDomains (App (cfg s))) (Link (DurableLinkInfo params))
          then (Inl ErrDomainLinkNotAllowed, db, rnd)
          else
            let isi = IosAppStoreId (IosParameters (DurableLinkInfo params)) in
            if isi \<noteq> [] \<and> \<not> IsNumericString (utils s) isi
            then (Inl ErrInvalidAppStoreID, db, rnd)
            else
              let queryParams = linkQueryParams params;
                  warnings = linkWarnings s params;
                  shortPath = (Option (Suffix params) = ''SHORT'')
              in (case createOrGetShortLink s db rnd host queryParams shortPath of
                    (Inl err, db', rnd') \<Rightarrow> (Inl err, db', rnd')
                  | (Inr response, db', rnd') \<Rightarrow>
                      (Inr (response\<lparr>Warnings := warnings\<rparr>), db', rnd')))"

definition ParseLongDurableLink ::
  "('s, 'r) linkService \<Rightarrow> string \<Rightarrow> error + CreateDurableLinkRequest" where
  "ParseLongDurableLink s longDurableLink =
     (case url_Parse (lib s) longDurableLink of
        None \<Rightarrow> Inl ErrInvalidURLFormat
      | Some u \<Rightarrow>
          if URL_Host u = [] then Inl ErrHostInvalid
          else
            let params = Query u;
                param = (\<lambda>key zero. if Get params key \<noteq> [] then Get params key else zero);
                defaultApn = (case DefaultAndroidPackageName (App (cfg s)) of
                                Some d \<Rightarrow> d | None \<Rightarrow> []);
                defaultIsi = (case DefaultIosStoreId (App (cfg s)) of
                                Some d \<Rightarrow> d | None \<Rightarrow> [])
            in Inr
              \<lparr>DurableLinkInfo =
                 \<lparr>Host = URL_Host u,
                  Link = Get params ''link'',
                  AndroidParameters =
                    \<lparr>AndroidPackageName = param ''apn'' defaultApn,
                     AndroidFallbackLink = param ''afl'' [],
                     AndroidMinPackageVersionCode = param ''amv'' []\<rparr>,
                  IosParameters =
                    \<lparr>IosAppStoreId = param ''isi'' defaultIsi,
                     IosFallbackLink = param ''ifl'' [],
                     IosIpadFallbackLink = param ''ipfl'' []\<rparr>,
                  OtherPlatformParameters = \<lparr>FallbackURL = param ''ofl'' []\<rparr>,
                  SocialMetaTagInfo =
                    \<lparr>SocialTitle = param ''st'' [],
                     SocialDescription = param ''sd'' [],
                     SocialImageLink = param ''si'' []\<rparr>,
                  AnalyticsInfo =
                    \<lparr>MarketingParameters =
                       \<lparr>UtmSource = param ''utm_source'' [],
                        UtmMedium = param ''utm_medium'' [],
                        UtmCampaign = param ''utm_campaign'' [],
                        UtmTerm = param ''utm_term'' [],
                        UtmContent = param ''utm_content'' []\<rparr>,
                     ItunesConnectAnalytics =
                       \<lparr>At = param ''at'' [],
                        Ct = param ''ct'' [],
                        Mt = param ''mt'' [],
                        Pt = param ''pt'' []\<rparr>\<rparr>\<rparr>,
               Suffix = \<lparr>Option = param ''path'' []\<rparr>\<rparr>)"

definition ResolveShortPath ::
  "('s, 'r) linkService \<Rightarrow> 's \<Rightarrow> string \<Rightarrow> error + LongLinkResponse" where
  "ResolveShortPath s db rawURL =
     (case url_Parse (lib s) rawURL of
        None \<Rightarrow> Inl ErrInvalidRequestedLink
      | Some u \<Rightarrow>
          let normalizedHost = removePreviewFromHost (URL_Host u);
              pathParts = Split (Trim (URL_Path u) ''/'') (CHR ''/'')
          in if length pathParts \<noteq> 1
             then Inl (Wrapped ''unexpected path format'' ErrInvalidPathFormat)
             else getLongLinkFromHostAndPath s db normalizedHost (pathParts ! 0))"

definition PrepareDurableLinkRequest ::
  "('s, 'r) linkService \<Rightarrow> (string \<rightharpoonup> any) \<Rightarrow> error + CreateDurableLinkRequest" where
  "PrepareDurableLinkRequest s input =
     (let built =
        (case input ''longDurableLink'' of
           Some (AnyString longLink) \<Rightarrow>
             if longLink \<noteq> [] then ParseLongDurableLink s longLink
             else (case json_Decode (lib s) input of
                     None \<Rightarrow> Inl ErrInvalidFormat | Some req \<Rightarrow> Inr req)
         | _ \<Rightarrow>
             (case json_Decode (lib s) input of
                None \<Rightarrow> Inl ErrInvalidFormat | Some req \<Rightarrow> Inr req))
      in case built of
           Inl err \<Rightarrow> Inl err
         | Inr req \<Rightarrow>
             if Host (DurableLinkInfo req) = [] then Inl ErrMissingHost
             else if Link (DurableLinkInfo req) = [] then Inl ErrMissingLink
             else (case ValidateURLScheme (utils s) (Link (DurableLinkInfo req)) of
                     Some err \<Rightarrow> Inl err
                   | None \<Rightarrow> Inr req))"

section \<open>The key table and the canonical serialisation, as the spec words them\<close>

text \<open>
  The spec speaks of the (key, value) pairs of a description and of their serialisation
  sorted by key. \<open>optionalFields\<close> lists the optional fields of a request under their query
  keys; \<open>nonEmptyPairs\<close> is the set of pairs with a non-empty value; \<open>joinPairs\<close> writes a
  list of pairs as \<^verbatim>\<open>k1=v1&k2=v2&...\<close> with keys and values escaped.
\<close>

definition optionalFields :: "CreateDurableLinkRequest \<Rightarrow> (string \<times> string) list" where
  "optionalFields params =
     (let info = DurableLinkInfo params in
      [(''apn'', AndroidPackageName (AndroidParameters info)),
       (''afl'', AndroidFallbackLink (AndroidParameters info)),
       (''amv'', AndroidMinPackageVersionCode (AndroidParameters info)),
       (''ifl'', IosFallbackLink (IosParameters info)),
       (''ipfl'', IosIpadFallbackLink (IosParameters info)),
       (''isi'', IosAppStoreId (IosParameters info)),
       (''ofl'', FallbackURL (OtherPlatformParameters info)),
       (''st'', SocialTitle (SocialMetaTagInfo info)),
       (''sd'', SocialDescription (SocialMetaTagInfo info)),
       (''si'', SocialImageLink (SocialMetaTagInfo info)),
       (''utm_source'', UtmSource (MarketingParameters (AnalyticsInfo info))),
       (''utm_medium'', UtmMedium (MarketingParameters (AnalyticsInfo info))),
       (''utm_campaign'', UtmCampaign (MarketingParameters (AnalyticsInfo info))),
       (''utm_term'', UtmTerm (MarketingParameters (AnalyticsInfo info))),
       (''utm_content'', UtmContent (MarketingParameters (AnalyticsInfo info))),
       (''pt'', Pt (ItunesConnectAnalytics (AnalyticsInfo info))),
       (''at'', At (ItunesConnectAnalytics (AnalyticsInfo info))),
       (''ct'', Ct (ItunesConnectAnalytics (AnalyticsInfo info))),
       (''mt'', Mt (ItunesConnectAnalytics (AnalyticsInfo info)))])"

definition allFields :: "CreateDurableLinkRequest \<Rightarrow> (string \<times> string) list" where
  "allFields params = (''link'', Link (DurableLinkInfo params)) # optionalFields params"


text \<open>The pairs a request contributes to its query: the link always, the others when set.\<close>

definition queryPairs :: "CreateDurableLinkRequest \<Rightarrow> (string \<times> string) list" where
  "queryPairs params =
     (''link'', Link (DurableLinkInfo params))
       # filter (\<lambda>p. snd p \<noteq> []) (optionalFields params)"

definition encodePair :: "string \<times> string \<Rightarrow> string" where
  "encodePair p = QueryEscape (fst p) @ ''='' @ QueryEscape (snd p)"

fun joinPairs :: "(string \<times> string) list \<Rightarrow> string" where
  "joinPairs [] = []"
| "joinPairs [p] = encodePair p"
| "joinPairs (p # q # ps) = encodePair p @ ''&'' @ joinPairs (q # ps)"

text \<open>Adding pairs to a query one after the other, in the order of the list.\<close>

definition addAll :: "Values \<Rightarrow> (string \<times> string) list \<Rightarrow> Values" where
  "addAll v ps = foldl (\<lambda>q p. Add q (fst p) (snd p)) v ps"


text \<open>
  Modelled from the spec: the contract of \<^verbatim>\<open>utils.GenerateRandomAlphanumericString\<close>, whose
  code is not among the sources (section 4.4, step 3: a token of the requested length over
  the alphanumeric characters).
\<close>

definition tokenContract :: "('r \<Rightarrow> int \<Rightarrow> string \<times> 'r) \<Rightarrow> bool" where
  "tokenContract generate =
     (\<forall>rnd len. 0 \<le> len \<longrightarrow>
        int (length (fst (generate rnd len))) = len
        \<and> list_all (\<lambda>c. isLetter c \<or> isDigit c) (fst (generate rnd len)))"


text \<open>The dependency warnings that name the parameter \<open>p\<close>.\<close>

definition warnsAbout :: "string \<Rightarrow> DurableLinkCreationWarning \<Rightarrow> bool" where
  "warnsAbout p w = (w = unrecognized p ''isi'' \<or> w = unrecognized p ''pt'')"

section \<open>Concrete collaborators\<close>

text \<open>
  The theorems below hold for every repository, helper and parser. To run the service on
  concrete requests, this section gives one instance of each collaborator.
\<close>

subsection \<open>A model of url.Parse\<close>

text \<open>
  \<open>Parse\<close> follows \<^verbatim>\<open>url.Parse\<close> (with \<^verbatim>\<open>getScheme\<close> and \<^verbatim>\<open>parse\<close>) for URLs whose authority is
  a plain host name and whose path has no percent escapes: it rejects control bytes and a
  missing scheme before a colon, cuts the fragment, the scheme and the query, and splits
  authority and path. User information, ports, bracketed addresses and percent escapes in
  host and path are not modelled.
\<close>

definition stringContainsCTLByte :: "string \<Rightarrow> bool" where
  "stringContainsCTLByte s = list_ex (\<lambda>c. c < CHR 0x20 \<or> c = CHR 0x7F) s"

text \<open>\<^verbatim>\<open>getScheme\<close>: \<open>done\<close> is the part of the URL already read, \<open>None\<close> the error.\<close>

fun getScheme :: "string \<Rightarrow> string \<Rightarrow> (string \<times> string) option" where
  "getScheme done [] = Some ([], done)"
| "getScheme done (c # cs) =
     (if isLetter c then getScheme (done @ [c]) cs
      else if isDigit c \<or> c = CHR ''+'' \<or> c = CHR ''-'' \<or> c = CHR ''.'' then
        (if done = [] then Some ([], c # cs) else getScheme (done @ [c]) cs)
      else if c = CHR '':'' then
        (if done = [] then None else Some (done, cs))
      else Some ([], done @ c # cs))"

definition ToLower :: "string \<Rightarrow> string" where
  "ToLower s =
     map (\<lambda>c. if CHR ''A'' \<le> c \<and> c \<le> CHR ''Z'' then char_of (of_char c + (32::nat)) else c) s"

definition Parse :: "string \<Rightarrow> URL option" where
  "Parse rawURL =
     (let u = fst (Cut rawURL (CHR ''#'')) in
      if stringContainsCTLByte u then None
      else if u = ''*'' then
        Some \<lparr>URL_Scheme = [], URL_Host = [], URL_Path = ''*'', URL_RawQuery = []\<rparr>
      else
        case getScheme [] u of
          None \<Rightarrow> None
        | Some (scheme, afterScheme) \<Rightarrow>
            let scheme = ToLower scheme;
                forceQuery = (HasSuffix afterScheme ''?''
                              \<and> count_list afterScheme (CHR ''?'') = 1);
                rest = (if forceQuery then butlast afterScheme
                        else fst (Cut afterScheme (CHR ''?'')));
                rawQuery = (if forceQuery then [] else snd (Cut afterScheme (CHR ''?'')))
            in
            if \<not> HasPrefix rest ''/'' \<and> scheme \<noteq> [] then
              Some \<lparr>URL_Scheme = scheme, URL_Host = [], URL_Path = [], URL_RawQuery = rawQuery\<rparr>
            else if \<not> HasPrefix rest ''/'' \<and> CHR '':'' \<in> set (fst (Cut rest (CHR ''/''))) then
              None
            else if (scheme \<noteq> [] \<or> \<not> HasPrefix rest ''///'') \<and> HasPrefix rest ''//'' then
              let authority = takeWhile (\<lambda>c. c \<noteq> CHR ''/'') (drop 2 rest);
                  path = dropWhile (\<lambda>c. c \<noteq> CHR ''/'') (drop 2 rest)
              in Some \<lparr>URL_Scheme = scheme, URL_Host = authority, URL_Path = path,
                       URL_RawQuery = rawQuery\<rparr>
            else
              Some \<lparr>URL_Scheme = scheme, URL_Host = [], URL_Path = rest, URL_RawQuery = rawQuery\<rparr>)"

subsection \<open>An in-memory repository\<close>

text \<open>
  Modelled from the spec: the persistence collaborator of its sections 3 and 6, whose code
  (package \<^verbatim>\<open>repository\<close>) is not among the sources. A store is the list of records
  \<open>(host, path) \<rightarrow> (query, unguessable)\<close>; \<open>get\<close> and \<open>findGuessable\<close> answer \<^verbatim>\<open>sql.ErrNoRows\<close>
  when nothing matches, \<open>findGuessable\<close> looks among guessable records only, and \<open>put\<close>
  refuses a path that the host already has.
\<close>

record ShortLinkRecord =
  rec_host :: string
  rec_path :: string
  rec_query :: string
  rec_unguessable :: bool

definition mem_get :: "ShortLinkRecord list \<Rightarrow> string \<Rightarrow> string \<Rightarrow> error + string" where
  "mem_get db host path =
     (case find (\<lambda>r. rec_host r = host \<and> rec_path r = path) db of
        None \<Rightarrow> Inl ErrNoRows
      | Some r \<Rightarrow> Inr (rec_query r))"

definition mem_findGuessable :: "ShortLinkRecord list \<Rightarrow> string \<Rightarrow> string \<Rightarrow> error + string" where
  "mem_findGuessable db host rawQS =
     (case find (\<lambda>r. rec_host r = host \<and> rec_query r = rawQS \<and> \<not> rec_unguessable r) db of
        None \<Rightarrow> Inl ErrNoRows
      | Some r \<Rightarrow> Inr (rec_path r))"

definition mem_put ::
  "ShortLinkRecord list \<Rightarrow> string \<Rightarrow> string \<Rightarrow> string \<Rightarrow> bool
     \<Rightarrow> error option \<times> ShortLinkRecord list" where
  "mem_put db host path rawQS unguessable =
     (if list_ex (\<lambda>r. rec_host r = host \<and> rec_path r = path) db
      then (Some ErrDuplicatePath, db)
      else (None, db @ [\<lparr>rec_host = host, rec_path = path, rec_query = rawQS,
                         rec_unguessable = unguessable\<rparr>]))"

definition memRepo :: "ShortLinkRecord list LinkRepository" where
  "memRepo =
     \<lparr>GetQueryParamsByHostAndPath = mem_get,
      FindExistingShortLink = mem_findGuessable,
      CreateShortLink = mem_put\<rparr>"

subsection \<open>Helpers\<close>

text \<open>
  Modelled from the spec: the helpers of package \<^verbatim>\<open>utils\<close> (section 4.1 of the spec), whose
  code is not among the sources. \<open>cleanHost\<close> strips a scheme and a path and rejects an
  empty result; \<open>isDomainAllowed\<close> asks that the host of the target link is an entry of
  the allow-list (an empty list rejects all); \<open>isNumericString\<close>, \<open>isUrl\<close> and
  \<open>validateUrlScheme\<close> are format predicates, the last accepting \<^verbatim>\<open>http\<close> and \<^verbatim>\<open>https\<close> only.
\<close>

definition cleanHost :: "string \<Rightarrow> error + string" where
  "cleanHost raw =
     (let noScheme = (if HasPrefix raw ''https://'' then TrimPrefix raw ''https://''
                      else TrimPrefix raw ''http://'');
          host = takeWhile (\<lambda>c. c \<noteq> CHR ''/'') noScheme
      in if host = [] then Inl (ErrOther ''invalid host'') else Inr host)"

definition isDomainAllowed :: "string list \<Rightarrow> string \<Rightarrow> bool" where
  "isDomainAllowed allowList targetLink =
     (case Parse targetLink of
        None \<Rightarrow> False
      | Some u \<Rightarrow> URL_Host u \<in> set allowList)"

definition isNumericString :: "string \<Rightarrow> bool" where
  "isNumericString s = (s \<noteq> [] \<and> list_all isDigit s)"

definition isUrl :: "string \<Rightarrow> bool" where
  "isUrl s =
     (case Parse s of
        None \<Rightarrow> False
      | Some u \<Rightarrow> URL_Scheme u \<noteq> [] \<and> URL_Host u \<noteq> [])"

definition validateUrlScheme :: "string \<Rightarrow> error option" where
  "validateUrlScheme link =
     (case Parse link of
        None \<Rightarrow> Some (ErrOther ''invalid URL scheme'')
      | Some u \<Rightarrow>
          if URL_Scheme u = ''http'' \<or> URL_Scheme u = ''https'' then None
          else Some (ErrOther ''invalid URL scheme''))"

text \<open>
  Modelled from the spec: \<^verbatim>\<open>utils.GenerateRandomAlphanumericString\<close> (section 4.4, step 3: a
  token of the given length over the alphanumeric characters). The random source is a
  linear congruential generator on the seed \<open>rnd\<close>.
\<close>

definition alphanumerics :: string where
  "alphanumerics = ''abcdefghijklmnopqrstuvwxyzABCDEFGHIJKLMNOPQRSTUVWXYZ0123456789''"

fun randomToken :: "int \<Rightarrow> nat \<Rightarrow> string \<times> int" where
  "randomToken rnd 0 = ([], rnd)"
| "randomToken rnd (Suc n) =
     (let rnd' = (rnd * 1103515245 + 12345) mod 2147483648;
          more = randomToken rnd' n
      in (alphanumerics ! nat (rnd' mod 62) # fst more, snd more))"

definition generateRandomAlphanumericString :: "int \<Rightarrow> int \<Rightarrow> string \<times> int" where
  "generateRandomAlphanumericString rnd len = randomToken rnd (nat len)"

definition modelUtils :: "int Utils" where
  "modelUtils =
     \<lparr>CleanHost = cleanHost,
      IsDomainAllowed = isDomainAllowed,
      IsNumericString = isNumericString,
      IsURL = isUrl,
      ValidateURLScheme = validateUrlScheme,
      GenerateRandomAlphanumericString = generateRandomAlphanumericString\<rparr>"

subsection \<open>A decoder and a service\<close>

text \<open>
  A decoder for the required fields of a structured request body: \<^verbatim>\<open>durableLinkInfo\<close> with
  \<^verbatim>\<open>host\<close> and \<^verbatim>\<open>link\<close>, and \<^verbatim>\<open>suffix\<close> with \<^verbatim>\<open>option\<close>. A member of the wrong JSON type is
  the decoding error.
\<close>

definition emptyRequest :: CreateDurableLinkRequest where
  "emptyRequest =
     \<lparr>DurableLinkInfo =
        \<lparr>Host = [], Link = [],
         AndroidParameters =
           \<lparr>AndroidPackageName = [], AndroidFallbackLink = [],
            AndroidMinPackageVersionCode = []\<rparr>,
         IosParameters =
           \<lparr>IosAppStoreId = [], IosFallbackLink = [], IosIpadFallbackLink = []\<rparr>,
         OtherPlatformParameters = \<lparr>FallbackURL = []\<rparr>,
         SocialMetaTagInfo =
           \<lparr>SocialTitle = [], SocialDescription = [], SocialImageLink = []\<rparr>,
         AnalyticsInfo =
           \<lparr>MarketingParameters =
              \<lparr>UtmSource = [], UtmMedium = [], UtmCampaign = [], UtmTerm = [],
               UtmContent = []\<rparr>,
            ItunesConnectAnalytics = \<lparr>At = [], Ct = [], Mt = [], Pt = []\<rparr>\<rparr>\<rparr>,
      Suffix = \<lparr>Option = []\<rparr>\<rparr>"

definition member :: "any option \<Rightarrow> string \<Rightarrow> string option" where
  \<comment> \<open>the string member \<open>key\<close> of an optional JSON object; absent reads as the zero value\<close>
  "member obj key =
     (case obj of
        None \<Rightarrow> Some []
      | Some (AnyMap kvs) \<Rightarrow>
          (case map_of kvs key of
             None \<Rightarrow> Some []
           | Some (AnyString v) \<Rightarrow> Some v
           | Some _ \<Rightarrow> None)
      | Some _ \<Rightarrow> None)"

definition decodeRequest :: "(string \<rightharpoonup> any) \<Rightarrow> CreateDurableLinkRequest option" where
  "decodeRequest input =
     (case (member (input ''durableLinkInfo'') ''host'',
            member (input ''durableLinkInfo'') ''link'',
            member (input ''suffix'') ''option'') of
        (Some h, Some l, Some opt) \<Rightarrow>
          Some (emptyRequest
            \<lparr>DurableLinkInfo := (DurableLinkInfo emptyRequest)\<lparr>Host := h, Link := l\<rparr>,
             Suffix := \<lparr>Option = opt\<rparr>\<rparr>)
      | _ \<Rightarrow> None)"

definition modelLib :: Lib where
  "modelLib = \<lparr>url_Parse = Parse, json_Decode = decodeRequest\<rparr>"

definition exampleConfig :: Config where
  "exampleConfig =
     \<lparr>App = \<lparr>ShortPathLength = 6, UnguessablePathLength = 10,
              DefaultAndroidPackageName = None, DefaultIosStoreId = None,
              URLScheme = ''https'', AllowedDomains = [''example.com'']\<rparr>\<rparr>"

definition exampleService :: "(ShortLinkRecord list, int) linkService" where
  "exampleService =
     \<lparr>repo = memRepo, cfg = exampleConfig, utils = modelUtils, lib = modelLib\<rparr>"

subsection \<open>Example stores and requests\<close>

definition previewStore :: "ShortLinkRecord list" where
  "previewStore =
     [\<lparr>rec_host = ''foo.com'', rec_path = ''abc'',
       rec_query = ''link=https%3A%2F%2Fexample.com'', rec_unguessable = False\<rparr>]"


text \<open>A store that holds one guessable record for the query of the example request.\<close>

definition reuseStore :: "ShortLinkRecord list" where
  "reuseStore =
     [\<lparr>rec_host = ''x.link'', rec_path = ''abc123'',
       rec_query = ''link=https%3A%2F%2Fexample.com'', rec_unguessable = False\<rparr>]"

definition exampleRequest :: CreateDurableLinkRequest where
  "exampleRequest =
     emptyRequest
       \<lparr>DurableLinkInfo :=
          (DurableLinkInfo emptyRequest)\<lparr>Host := ''x.link'', Link := ''https://example.com''\<rparr>,
        Suffix := \<lparr>Option = ''SHORT''\<rparr>\<rparr>"

definition androidRequest :: "string \<Rightarrow> CreateDurableLinkRequest" where
  "androidRequest suffix =
     emptyRequest
       \<lparr>DurableLinkInfo :=
          (DurableLinkInfo emptyRequest)
            \<lparr>Host := ''x.link'', Link := ''https://example.com'',
             AndroidParameters :=
               \<lparr>AndroidPackageName = ''com.example.app'', AndroidFallbackLink = [],
                AndroidMinPackageVersionCode = []\<rparr>\<rparr>,
        Suffix := \<lparr>Option = suffix\<rparr>\<rparr>"


text \<open>The example service with a default Android package name configured.\<close>

definition defaultsService :: "(ShortLinkRecord list, int) linkService" where
  "defaultsService =
     exampleService
       \<lparr>cfg := \<lparr>App = (App exampleConfig)
                        \<lparr>DefaultAndroidPackageName := Some ''com.example.app''\<rparr>\<rparr>\<rparr>"

text \<open>
  A store in which the host already has the path that the generator yields first from
  seed 1, recorded for another query.
\<close>

definition takenStore :: "ShortLinkRecord list" where
  "takenStore =
     [\<lparr>rec_host = ''x.link'', rec_path = ''glc9oL'',
       rec_query = ''link=https%3A%2F%2Fother.example'', rec_unguessable = False\<rparr>]"

text \<open>A service whose reuse lookup fails, and two requests that fail validation.\<close>

definition brokenService :: "(ShortLinkRecord list, int) linkService" where
  "brokenService =
     exampleService
       \<lparr>repo := memRepo
          \<lparr>FindExistingShortLink := (\<lambda>db host rawQS. Inl (ErrOther ''connection lost''))\<rparr>\<rparr>"

definition foreignRequest :: CreateDurableLinkRequest where
  "foreignRequest =
     emptyRequest
       \<lparr>DurableLinkInfo :=
          (DurableLinkInfo emptyRequest)\<lparr>Host := ''x.link'', Link := ''https://other.example''\<rparr>\<rparr>"

definition badStoreIdRequest :: CreateDurableLinkRequest where
  "badStoreIdRequest =
     emptyRequest
       \<lparr>DurableLinkInfo :=
          (DurableLinkInfo emptyRequest)
            \<lparr>Host := ''x.link'', Link := ''https://example.com'',
             IosParameters :=
               \<lparr>IosAppStoreId = ''abc'', IosFallbackLink = [], IosIpadFallbackLink = []\<rparr>\<rparr>\<rparr>"

text \<open>Requests with iTunes Connect parameters and no store id.\<close>

definition itunesRequest :: "string \<Rightarrow> string \<Rightarrow> CreateDurableLinkRequest" where
  "itunesRequest at pt =
     emptyRequest
       \<lparr>DurableLinkInfo :=
          (DurableLinkInfo emptyRequest)
            \<lparr>Host := ''x.link'', Link := ''https://example.com'',
             AnalyticsInfo :=
               (AnalyticsInfo (DurableLinkInfo emptyRequest))
                 \<lparr>ItunesConnectAnalytics := \<lparr>At = at, Ct = [], Mt = [], Pt = pt\<rparr>\<rparr>\<rparr>\<rparr>"

text \<open>Request bodies: with a long link beside other members, and structured ones.\<close>

definition longLinkBody :: "string \<rightharpoonup> any" where
  "longLinkBody =
     [''longDurableLink'' \<mapsto> AnyString ''https://x.link/?link=https%3A%2F%2Fexample.com'',
      ''durableLinkInfo'' \<mapsto>
        AnyMap [(''host'', AnyString ''ignored.example''),
                (''link'', AnyString ''https://ignored.example'')]]"

definition structuredBody :: "string \<Rightarrow> string \<Rightarrow> string \<rightharpoonup> any" where
  "structuredBody host link =
     [''longDurableLink'' \<mapsto> AnyString [],
      ''durableLinkInfo'' \<mapsto> AnyMap [(''host'', AnyString host), (''link'', AnyString link)]]"

definition plainRequest :: "string \<Rightarrow> string \<Rightarrow> CreateDurableLinkRequest" where
  "plainRequest host link =
     emptyRequest
       \<lparr>DurableLinkInfo := (DurableLinkInfo emptyRequest)\<lparr>Host := host, Link := link\<rparr>\<rparr>"

text \<open>A request whose social image link is not a URL.\<close>

definition imageRequest :: CreateDurableLinkRequest where
  "imageRequest =
     emptyRequest
       \<lparr>DurableLinkInfo :=
          (DurableLinkInfo emptyRequest)
            \<lparr>Host := ''x.link'', Link := ''https://example.com'',
             SocialMetaTagInfo :=
               \<lparr>SocialTitle = [], SocialDescription = [], SocialImageLink = ''logo.png''\<rparr>\<rparr>\<rparr>"

section \<open>Properties of the string functions\<close>

lemma SplitN_two:
  "SplitN s c (Suc (Suc 0)) =
     (if c \<in> set s
      then [takeWhile (\<lambda>x. x \<noteq> c) s, tl (dropWhile (\<lambda>x. x \<noteq> c) s)]
      else [s])"
  by (induction s) (auto split: list.splits)

lemma takeWhile_label:
  "c \<notin> set l \<Longrightarrow> takeWhile (\<lambda>x. x \<noteq> c) (l @ c # r) = l"
  by (induction l) auto

lemma dropWhile_label:
  "c \<notin> set l \<Longrightarrow> dropWhile (\<lambda>x. x \<noteq> c) (l @ c # r) = c # r"
  by (induction l) auto

lemma dropWhile_found:
  "c \<in> set s \<Longrightarrow> \<exists>b. dropWhile (\<lambda>x. x \<noteq> c) s = c # b"
  by (induction s) auto

lemma HasPrefix_append: "HasPrefix (p @ r) p"
  by (simp add: HasPrefix_def)

lemma HasPrefix_iff: "HasPrefix s p \<longleftrightarrow> (\<exists>r. s = p @ r)"
  unfolding HasPrefix_def
  by (metis append_eq_conv_conj)

lemma HasSuffix_iff: "HasSuffix s p \<longleftrightarrow> (\<exists>l. s = l @ p)"
proof
  assume "HasSuffix s p"
  then have "s = take (length s - length p) s @ p"
    unfolding HasSuffix_def by (metis append_take_drop_id)
  then show "\<exists>l. s = l @ p" ..
next
  assume "\<exists>l. s = l @ p"
  then show "HasSuffix s p" by (auto simp: HasSuffix_def)
qed

lemma TrimSuffix_append: "TrimSuffix (l @ p) p = l"
  by (simp add: TrimSuffix_def HasSuffix_def)

lemma TrimPrefix_append: "TrimPrefix (p @ r) p = r"
  by (simp add: TrimPrefix_def HasPrefix_def)

lemma label_not_preview_prefix:
  assumes "CHR ''.'' \<notin> set l"
  shows "\<not> HasPrefix (l @ ''-preview.'' @ r) ''preview.''"
proof
  assume "HasPrefix (l @ ''-preview.'' @ r) ''preview.''"
  then obtain t where eq: "l @ ''-preview.'' @ r = ''preview.'' @ t"
    by (auto simp: HasPrefix_iff)
  have a: "takeWhile (\<lambda>x. x \<noteq> CHR ''.'') ((l @ ''-preview'') @ CHR ''.'' # r) = l @ ''-preview''"
    by (rule takeWhile_label) (use assms in simp)
  have b: "takeWhile (\<lambda>x. x \<noteq> CHR ''.'') (''preview'' @ CHR ''.'' # t) = ''preview''"
    by (rule takeWhile_label) simp
  from eq a b have "l @ ''-preview'' = ''preview''" by simp
  then have "length (l @ ''-preview'') = length ''preview''" by (rule arg_cong)
  then show False by simp
qed


lemma Split_no_sep: "c \<notin> set s \<Longrightarrow> Split s c = [s]"
  by (induction s) auto

lemma Split_nonempty: "Split s c \<noteq> []"
  by (induction s) (auto split: list.splits)

lemma length_Split: "length (Split s c) = Suc (count_list s c)"
proof (induction s)
  case Nil
  show ?case by simp
next
  case (Cons a s)
  then show ?case using Split_nonempty [of s c]
    by (cases "Split s c") auto
qed

lemma Split_single_iff: "length (Split s c) = Suc 0 \<longleftrightarrow> c \<notin> set s"
  by (simp add: length_Split count_list_0_iff)

section \<open>Properties of Values and Encode\<close>

lemma map_of_None_iff: "map_of v k = None \<longleftrightarrow> k \<notin> fst ` set v"
  by (simp add: map_of_eq_None_iff)

lemma Add_fresh: "k \<notin> fst ` set v \<Longrightarrow> Add v k x = v @ [(k, [x])]"
  by (simp add: Add_def map_of_None_iff [symmetric])

lemma addAll_distinct:
  "distinct (map fst ps) \<Longrightarrow> fst ` set v \<inter> fst ` set ps = {}
     \<Longrightarrow> addAll v ps = v @ map (\<lambda>p. (fst p, [snd p])) ps"
proof (induction ps arbitrary: v)
  case Nil
  show ?case by (simp add: addAll_def)
next
  case (Cons p ps)
  have fresh: "fst p \<notin> fst ` set v" using Cons.prems(2) by auto
  have step: "addAll v (p # ps) = addAll (v @ [(fst p, [snd p])]) ps"
    by (simp add: addAll_def Add_fresh [OF fresh])
  have d: "distinct (map fst ps)" using Cons.prems(1) by simp
  have disj: "fst ` set (v @ [(fst p, [snd p])]) \<inter> fst ` set ps = {}"
    using Cons.prems by auto
  show ?case
    by (simp add: step Cons.IH [OF d disj])
qed

lemma addAll_empty:
  "distinct (map fst ps) \<Longrightarrow> addAll [] ps = map (\<lambda>p. (fst p, [snd p])) ps"
  using addAll_distinct [of ps "[]"] by simp

lemma foldl_addParam:
  "foldl (\<lambda>q p. addParam q (fst p) (snd p)) v ps = addAll v (filter (\<lambda>p. snd p \<noteq> []) ps)"
  by (induction ps arbitrary: v) (simp_all add: addAll_def addParam_def)

lemma linkQueryParams_addAll: "linkQueryParams params = addAll [] (queryPairs params)"
proof -
  have "linkQueryParams params =
          foldl (\<lambda>q p. addParam q (fst p) (snd p))
            (Add [] ''link'' (Link (DurableLinkInfo params))) (optionalFields params)"
    by (simp add: linkQueryParams_def optionalFields_def Let_def)
  also have "\<dots> = addAll (Add [] ''link'' (Link (DurableLinkInfo params)))
                     (filter (\<lambda>p. snd p \<noteq> []) (optionalFields params))"
    by (rule foldl_addParam)
  also have "\<dots> = addAll [] (queryPairs params)"
    by (simp add: addAll_def queryPairs_def)
  finally show ?thesis .
qed

lemma optionalFields_keys:
  "map fst (optionalFields params) =
     [''apn'', ''afl'', ''amv'', ''ifl'', ''ipfl'', ''isi'', ''ofl'', ''st'', ''sd'', ''si'',
      ''utm_source'', ''utm_medium'', ''utm_campaign'', ''utm_term'', ''utm_content'',
      ''pt'', ''at'', ''ct'', ''mt'']"
  by (simp add: optionalFields_def Let_def)

lemma allFields_keys_distinct: "distinct (map fst (allFields params))"
  by (simp add: allFields_def optionalFields_keys)

lemma queryPairs_filter:
  "queryPairs params = filter (\<lambda>p. fst p = ''link'' \<or> snd p \<noteq> []) (allFields params)"
proof -
  have "\<forall>p \<in> set (optionalFields params). fst p \<noteq> ''link''"
  proof
    fix p assume "p \<in> set (optionalFields params)"
    then have "fst p \<in> set (map fst (optionalFields params))" by simp
    then show "fst p \<noteq> ''link''" unfolding optionalFields_keys by auto
  qed
  then have "filter (\<lambda>p. fst p = ''link'' \<or> snd p \<noteq> []) (optionalFields params)
               = filter (\<lambda>p. snd p \<noteq> []) (optionalFields params)"
    by (intro filter_cong) auto
  then show ?thesis by (simp add: queryPairs_def allFields_def)
qed

lemma queryPairs_keys_distinct: "distinct (map fst (queryPairs params))"
  unfolding queryPairs_filter
  by (rule distinct_map_filter) (rule allFields_keys_distinct)

lemma linkQueryParams_pairs:
  "linkQueryParams params = map (\<lambda>p. (fst p, [snd p])) (queryPairs params)"
  by (simp add: linkQueryParams_addAll addAll_empty queryPairs_keys_distinct)

lemma map_of_singletons:
  "map_of (map (\<lambda>p. (fst p, [snd p])) ps) k = map_option (\<lambda>x. [x]) (map_of ps k)"
  by (induction ps) auto

lemma lookup_singletons:
  "lookup (map (\<lambda>p. (fst p, [snd p])) ps) k =
     (case map_of ps k of None \<Rightarrow> [] | Some x \<Rightarrow> [x])"
  by (simp add: lookup_def map_of_singletons split: option.splits)

lemma Get_singletons:
  "Get (map (\<lambda>p. (fst p, [snd p])) ps) k = (case map_of ps k of None \<Rightarrow> [] | Some x \<Rightarrow> x)"
  by (simp add: Get_def map_of_singletons split: option.splits)

text \<open>What \<open>Encode\<close> writes for a query with one value per key.\<close>

definition writePair :: "string \<Rightarrow> string \<times> string \<Rightarrow> string" where
  "writePair buf p = (if buf \<noteq> [] then buf @ ''&'' else buf) @ encodePair p"

lemma encodePair_nonempty: "encodePair p \<noteq> []"
  by (simp add: encodePair_def)

lemma foldl_writePair_nonempty:
  "buf \<noteq> [] \<Longrightarrow> foldl writePair buf ps = buf @ concat (map (\<lambda>p. CHR ''&'' # encodePair p) ps)"
proof (induction ps arbitrary: buf)
  case Nil
  show ?case by simp
next
  case (Cons p ps)
  have ne: "writePair buf p \<noteq> []" by (simp add: writePair_def encodePair_nonempty)
  show ?case using Cons.prems
    by (simp add: Cons.IH [OF ne]) (simp add: writePair_def)
qed

lemma joinPairs_Cons:
  "joinPairs (p # ps) = encodePair p @ concat (map (\<lambda>p. CHR ''&'' # encodePair p) ps)"
  by (induction ps arbitrary: p) simp_all

lemma foldl_writePair: "foldl writePair [] ps = joinPairs ps"
proof (cases ps)
  case Nil
  then show ?thesis by simp
next
  case (Cons p qs)
  have "foldl writePair [] (p # qs) = foldl writePair (encodePair p) qs"
    by (simp add: writePair_def)
  also have "\<dots> = joinPairs (p # qs)"
    by (simp add: foldl_writePair_nonempty [OF encodePair_nonempty] joinPairs_Cons)
  finally show ?thesis using Cons by simp
qed

lemma Encode_step:
  assumes "map_of ps k = Some x"
  shows "(let vs = lookup (map (\<lambda>p. (fst p, [snd p])) ps) k; keyEscaped = QueryEscape k in
          foldl (\<lambda>buf x.
              (if buf \<noteq> [] then buf @ ''&'' else buf) @ keyEscaped @ ''='' @ QueryEscape x)
            buf vs)
         = writePair buf (k, the (map_of ps k))"
  by (simp add: lookup_singletons assms writePair_def encodePair_def Let_def)

lemma Encode_keys:
  assumes "\<forall>k \<in> set ks. map_of ps k \<noteq> None"
  shows "foldl (\<lambda>buf k.
            let vs = lookup (map (\<lambda>p. (fst p, [snd p])) ps) k; keyEscaped = QueryEscape k in
            foldl (\<lambda>buf x.
                (if buf \<noteq> [] then buf @ ''&'' else buf) @ keyEscaped @ ''='' @ QueryEscape x)
              buf vs) buf ks
         = foldl writePair buf (map (\<lambda>k. (k, the (map_of ps k))) ks)"
proof -
  have "foldl (\<lambda>buf k.
            let vs = lookup (map (\<lambda>p. (fst p, [snd p])) ps) k; keyEscaped = QueryEscape k in
            foldl (\<lambda>buf x.
                (if buf \<noteq> [] then buf @ ''&'' else buf) @ keyEscaped @ ''='' @ QueryEscape x)
              buf vs) buf ks
        = foldl (\<lambda>buf k. writePair buf (k, the (map_of ps k))) buf ks"
  proof (rule foldl_cong [OF refl refl])
    fix a k assume "k \<in> set ks"
    with assms obtain x where "map_of ps k = Some x" by auto
    then show "(let vs = lookup (map (\<lambda>p. (fst p, [snd p])) ps) k; keyEscaped = QueryEscape k in
          foldl (\<lambda>buf x.
              (if buf \<noteq> [] then buf @ ''&'' else buf) @ keyEscaped @ ''='' @ QueryEscape x)
            a vs) = writePair a (k, the (map_of ps k))"
      by (rule Encode_step)
  qed
  also have "\<dots> = foldl writePair buf (map (\<lambda>k. (k, the (map_of ps k))) ks)"
    by (simp add: foldl_map)
  finally show ?thesis .
qed

text \<open>The pairs of a query in the order of their keys.\<close>

definition sortedPairs :: "(string \<times> string) list \<Rightarrow> (string \<times> string) list" where
  "sortedPairs ps = map (\<lambda>k. (k, the (map_of ps k))) (sort (map fst ps))"

lemma Encode_singletons:
  "Encode (map (\<lambda>p. (fst p, [snd p])) ps) = joinPairs (sortedPairs ps)"
proof (cases "ps = []")
  case True
  then show ?thesis by (simp add: Encode_def sortedPairs_def)
next
  case False
  have keys: "\<forall>k \<in> set (sort (map fst ps)). map_of ps k \<noteq> None"
    by (auto simp: map_of_eq_None_iff)
  have fst_eq: "map fst (map (\<lambda>p. (fst p, [snd p])) ps) = map fst ps"
    by (simp add: comp_def)
  have ne: "map (\<lambda>p. (fst p, [snd p])) ps \<noteq> []"
    using False by simp
  have "Encode (map (\<lambda>p. (fst p, [snd p])) ps)
          = foldl writePair [] (sortedPairs ps)"
    unfolding Encode_def sortedPairs_def fst_eq
    by (simp only: ne if_False Encode_keys [OF keys])
  then show ?thesis by (simp add: foldl_writePair)
qed



lemma sortedPairs_distinct: "distinct (map fst ps) \<Longrightarrow> distinct (map fst (sortedPairs ps))"
  by (simp add: sortedPairs_def comp_def)

lemma sortedPairs_set: "distinct (map fst ps) \<Longrightarrow> set (sortedPairs ps) = set ps"
proof -
  assume d: "distinct (map fst ps)"
  have "set (sortedPairs ps) = (\<lambda>k. (k, the (map_of ps k))) ` fst ` set ps"
    by (simp add: sortedPairs_def)
  also have "\<dots> = (\<lambda>p. (fst p, the (map_of ps (fst p)))) ` set ps"
    by (simp add: image_image)
  also have "\<dots> = (\<lambda>p. p) ` set ps"
  proof (rule image_cong)
    fix p assume "p \<in> set ps"
    then have "map_of ps (fst p) = Some (snd p)" using d by simp
    then show "(fst p, the (map_of ps (fst p))) = p" by simp
  qed simp
  finally show ?thesis by simp
qed

section \<open>Escaping and the query round trip\<close>

lemma upperhex_digits:
  "list_all (\<lambda>n. ishex (upperhex ! n) \<and> unhex (upperhex ! n) = n \<and> upperhex ! n \<in> set upperhex)
     [0..<16]"
  by code_simp

lemma upperhex_digit:
  assumes "n < 16"
  shows "ishex (upperhex ! n) \<and> unhex (upperhex ! n) = n \<and> upperhex ! n \<in> set upperhex"
proof -
  have "n \<in> set [0..<16]" using assms by simp
  with upperhex_digits show ?thesis
    unfolding list_all_iff by blast
qed

lemma of_char_less_256: "of_char (c :: char) < (256 :: nat)"
proof -
  have "of_char c = (of_char c :: nat) mod 256"
    by (simp add: of_char_mod_256)
  also have "\<dots> < 256" by simp
  finally show ?thesis .
qed

lemma unescaped_byte_plain:
  "\<not> shouldEscape c \<Longrightarrow>
     c \<noteq> CHR ''%'' \<and> c \<noteq> CHR ''+'' \<and> c \<noteq> CHR ''&'' \<and> c \<noteq> CHR ''='' \<and> c \<noteq> CHR '';''"
  by (auto simp: shouldEscape_def)

lemma QueryUnescape_escapeByte:
  "QueryUnescape (escapeByte c @ r) = map_option ((#) c) (QueryUnescape r)"
proof (cases "shouldEscape c")
  case False
  then show ?thesis
    using unescaped_byte_plain [OF False] by (simp add: escapeByte_def)
next
  case True
  show ?thesis
  proof (cases "c = CHR '' ''")
    case True
    then show ?thesis using \<open>shouldEscape c\<close> by (simp add: escapeByte_def)
  next
    case False
    let ?n = "of_char c :: nat"
    have hi: "?n div 16 < 16" using of_char_less_256 [of c] by arith
    have lo: "?n mod 16 < 16" by simp
    have whole: "char_of (?n div 16 * 16 + ?n mod 16) = c" by simp
    show ?thesis
      using True False upperhex_digit [OF hi] upperhex_digit [OF lo] whole
      by (simp add: escapeByte_def)
  qed
qed

lemma QueryUnescape_QueryEscape: "QueryUnescape (QueryEscape s) = Some s"
proof (induction s)
  case Nil
  show ?case by (simp add: QueryEscape_def)
next
  case (Cons c s)
  have "QueryEscape (c # s) = escapeByte c @ QueryEscape s"
    by (simp add: QueryEscape_def)
  then show ?case using Cons.IH by (simp add: QueryUnescape_escapeByte)
qed

lemma escapeByte_separators:
  "x \<in> set (escapeByte c) \<Longrightarrow> x \<noteq> CHR ''&'' \<and> x \<noteq> CHR ''='' \<and> x \<noteq> CHR '';''"
proof (cases "shouldEscape c")
  case False
  assume "x \<in> set (escapeByte c)"
  with False have "x = c" by (simp add: escapeByte_def)
  then show ?thesis using unescaped_byte_plain [OF False] by simp
next
  case True
  assume x: "x \<in> set (escapeByte c)"
  let ?n = "of_char c :: nat"
  have hi: "?n div 16 < 16" using of_char_less_256 [of c] by arith
  have lo: "?n mod 16 < 16" by simp
  have "x = CHR ''+'' \<or> x = CHR ''%'' \<or> x \<in> set upperhex"
    using x True upperhex_digit [OF hi] upperhex_digit [OF lo]
    by (auto simp: escapeByte_def split: if_splits)
  then show ?thesis by (auto simp: upperhex_def)
qed

lemma QueryEscape_separators:
  "CHR ''&'' \<notin> set (QueryEscape s) \<and> CHR ''='' \<notin> set (QueryEscape s)
   \<and> CHR '';'' \<notin> set (QueryEscape s)"
  using escapeByte_separators by (fastforce simp: QueryEscape_def)

lemma Cut_found: "c \<notin> set a \<Longrightarrow> Cut (a @ c # b) c = (a, b)"
  by (simp add: Cut_def takeWhile_label dropWhile_label)

lemma Cut_missing: "c \<notin> set a \<Longrightarrow> Cut a c = (a, [])"
  by (induction a) (auto simp: Cut_def)

lemma encodePair_no_amp: "CHR ''&'' \<notin> set (encodePair p)"
  using QueryEscape_separators by (simp add: encodePair_def)

lemma encodePair_no_semicolon: "CHR '';'' \<notin> set (encodePair p)"
  using QueryEscape_separators by (simp add: encodePair_def)

lemma Cut_encodePair: "Cut (encodePair p) (CHR ''='') = (QueryEscape (fst p), QueryEscape (snd p))"
  unfolding encodePair_def using QueryEscape_separators [of "fst p"]
  by (simp add: Cut_found)

lemma parseQuery_piece:
  assumes "Cut query (CHR ''&'') = (encodePair p, rest)"
  shows "parseQuery m query = parseQuery (Add m (fst p) (snd p)) rest"
proof -
  have ne: "query \<noteq> []"
    using assms encodePair_nonempty [of p] by (auto simp: Cut_def)
  show ?thesis
    by (subst parseQuery.simps)
      (simp add: ne assms encodePair_no_semicolon encodePair_nonempty Cut_encodePair
        QueryUnescape_QueryEscape Let_def)
qed

lemma parseQuery_Nil: "parseQuery m [] = m"
  by (subst parseQuery.simps) simp

lemma parseQuery_joined:
  "parseQuery m (encodePair p @ concat (map (\<lambda>q. CHR ''&'' # encodePair q) qs))
     = addAll (Add m (fst p) (snd p)) qs"
proof (induction qs arbitrary: m p)
  case Nil
  have "Cut (encodePair p) (CHR ''&'') = (encodePair p, [])"
    by (rule Cut_missing) (rule encodePair_no_amp)
  then show ?case
    by (simp add: parseQuery_piece parseQuery_Nil addAll_def)
next
  case (Cons q qs)
  have "Cut (encodePair p @ CHR ''&'' # encodePair q @ concat (map (\<lambda>q. CHR ''&'' # encodePair q) qs))
          (CHR ''&'')
        = (encodePair p, encodePair q @ concat (map (\<lambda>q. CHR ''&'' # encodePair q) qs))"
    by (rule Cut_found) (rule encodePair_no_amp)
  then have "parseQuery m (encodePair p @ concat (map (\<lambda>q. CHR ''&'' # encodePair q) (q # qs)))
               = parseQuery (Add m (fst p) (snd p))
                   (encodePair q @ concat (map (\<lambda>q. CHR ''&'' # encodePair q) qs))"
    by (simp add: parseQuery_piece)
  then show ?case by (simp add: Cons.IH addAll_def)
qed

lemma parseQuery_joinPairs: "parseQuery [] (joinPairs ps) = addAll [] ps"
proof (cases ps)
  case Nil
  then show ?thesis by (simp add: parseQuery_Nil addAll_def)
next
  case (Cons p qs)
  then show ?thesis
    by (simp add: joinPairs_Cons parseQuery_joined addAll_def del: joinPairs.simps)
qed

text \<open>Reading the encoded query of a request back gives every key its field.\<close>

lemma map_of_filter_distinct:
  "distinct (map fst xs) \<Longrightarrow>
     map_of (filter P xs) k =
       (case map_of xs k of None \<Rightarrow> None | Some x \<Rightarrow> if P (k, x) then Some x else None)"
proof (induction xs)
  case Nil
  show ?case by simp
next
  case (Cons a xs)
  then have "fst a \<notin> fst ` set xs" by simp
  then have "map_of xs (fst a) = None" by (simp add: map_of_eq_None_iff)
  with Cons show ?case by (cases a) (auto split: option.splits)
qed

lemma Get_linkQueryParams:
  "Get (linkQueryParams params) k =
     (case map_of (allFields params) k of None \<Rightarrow> [] | Some x \<Rightarrow> x)"
  unfolding linkQueryParams_pairs Get_singletons queryPairs_filter
  by (simp add: map_of_filter_distinct [OF allFields_keys_distinct] split: option.splits)

lemma Query_Encode_linkQueryParams:
  "Get (parseQuery [] (Encode (linkQueryParams params))) k = Get (linkQueryParams params) k"
proof -
  let ?qp = "queryPairs params"
  have d: "distinct (map fst ?qp)" by (rule queryPairs_keys_distinct)
  have ds: "distinct (map fst (sortedPairs ?qp))" by (rule sortedPairs_distinct [OF d])
  have "parseQuery [] (Encode (linkQueryParams params)) = addAll [] (sortedPairs ?qp)"
    by (simp add: linkQueryParams_pairs Encode_singletons parseQuery_joinPairs)
  also have "\<dots> = map (\<lambda>p. (fst p, [snd p])) (sortedPairs ?qp)"
    by (rule addAll_empty [OF ds])
  finally have parsed: "parseQuery [] (Encode (linkQueryParams params))
                        = map (\<lambda>p. (fst p, [snd p])) (sortedPairs ?qp)" .
  have "map_of (sortedPairs ?qp) = map_of ?qp"
    using ds d sortedPairs_set [OF d] by (simp add: map_of_inject_set)
  then show ?thesis
    unfolding parsed by (simp add: Get_singletons linkQueryParams_pairs)
qed

section \<open>Requests with the same pairs\<close>






section \<open>Parsing an encoded request\<close>

lemma Get_parsed_field:
  "Get (parseQuery [] (Encode (linkQueryParams d))) k
     = (case map_of (allFields d) k of None \<Rightarrow> [] | Some x \<Rightarrow> x)"
  by (simp only: Query_Encode_linkQueryParams Get_linkQueryParams)


section \<open>The allocator\<close>

lemma createOrGetShortLink_hit:
  assumes "shortPath"
    and "FindExistingShortLink (repo s) db host (Encode queryParams) = Inr existing"
  shows "createOrGetShortLink s db rnd host queryParams shortPath =
           (Inr \<lparr>ShortLink = URLScheme (App (cfg s)) @ ''://'' @ host @ ''/'' @ existing,
                 Warnings = []\<rparr>, db, rnd)"
  using assms by (simp add: createOrGetShortLink_def findExistingShortLink_def Let_def)

lemma createOrGetShortLink_allocate:
  assumes "\<not> shortPath \<or> FindExistingShortLink (repo s) db host (Encode queryParams) = Inl ErrNoRows"
  shows "createOrGetShortLink s db rnd host queryParams shortPath
           = allocateShortLink s db rnd host (Encode queryParams) shortPath"
  using assms by (auto simp: createOrGetShortLink_def findExistingShortLink_def Let_def)

lemma createOrGetShortLink_lookup_error:
  assumes "shortPath"
    and "FindExistingShortLink (repo s) db host (Encode queryParams) = Inl err"
    and "err \<noteq> ErrNoRows"
  shows "createOrGetShortLink s db rnd host queryParams shortPath = (Inl err, db, rnd)"
  using assms by (simp add: createOrGetShortLink_def findExistingShortLink_def Let_def)

lemma alphanumerics_alnum: "list_all (\<lambda>c. isLetter c \<or> isDigit c) alphanumerics"
  by code_simp

lemma randomToken_contract:
  "length (fst (randomToken rnd n)) = n
   \<and> list_all (\<lambda>c. isLetter c \<or> isDigit c) (fst (randomToken rnd n))"
proof (induction n arbitrary: rnd)
  case 0
  show ?case by simp
next
  case (Suc n)
  let ?r = "(rnd * 1103515245 + 12345) mod 2147483648"
  have "nat (?r mod 62) < 62" by simp
  then have "nat (?r mod 62) < length alphanumerics" by (simp add: alphanumerics_def)
  then have "alphanumerics ! nat (?r mod 62) \<in> set alphanumerics" by (rule nth_mem)
  then have "isLetter (alphanumerics ! nat (?r mod 62)) \<or> isDigit (alphanumerics ! nat (?r mod 62))"
    using alphanumerics_alnum unfolding list_all_iff by blast
  then show ?case using Suc.IH [of ?r] by (simp add: Let_def)
qed

lemma tokenContract_generate: "tokenContract generateRandomAlphanumericString"
  by (simp add: tokenContract_def generateRandomAlphanumericString_def randomToken_contract)


lemma allocateShortLink_put_error:
  assumes "CreateShortLink (repo s) db host
             (fst (GenerateRandomAlphanumericString (utils s) rnd len)) rawQS (\<not> shortPath)
           = (Some err, db')"
    and "len = (if shortPath then ShortPathLength (App (cfg s))
                else UnguessablePathLength (App (cfg s)))"
  shows "allocateShortLink s db rnd host rawQS shortPath
           = (Inl (Wrapped ''failed to store link'' err), db',
              snd (GenerateRandomAlphanumericString (utils s) rnd len))"
  using assms by (auto simp: allocateShortLink_def createShortLink_def Let_def)

section \<open>Warnings\<close>

lemma CreateDurableLink_warnings:
  "CreateDurableLink s db rnd params = (Inr response, db', rnd')
     \<Longrightarrow> Warnings response = linkWarnings s params"
  by (auto simp: CreateDurableLink_def Let_def split: sum.splits if_splits prod.splits)

lemma count_list_if:
  "count_list (if c then [w] else []) x = (if c \<and> w = x then 1 else 0)"
  by simp

lemma filter_if: "filter P (if c then [w] else []) = (if c \<and> P w then [w] else [])"
  by simp

lemma unrecognized_code: "WarningCode (unrecognized p m) = ''UNRECOGNIZED_PARAM''"
  by (simp add: unrecognized_def)

lemma malformed_code: "WarningCode malformed_si \<noteq> ''UNRECOGNIZED_PARAM''"
  by (simp add: malformed_si_def)

section \<open>Preparing a request\<close>

lemma PrepareDurableLinkRequest_long:
  assumes "input ''longDurableLink'' = Some (AnyString longLink)" and "longLink \<noteq> []"
  shows "PrepareDurableLinkRequest s input =
     (case ParseLongDurableLink s longLink of
        Inl err \<Rightarrow> Inl err
      | Inr req \<Rightarrow>
          if Host (DurableLinkInfo req) = [] then Inl ErrMissingHost
          else if Link (DurableLinkInfo req) = [] then Inl ErrMissingLink
          else (case ValidateURLScheme (utils s) (Link (DurableLinkInfo req)) of
                  Some err \<Rightarrow> Inl err
                | None \<Rightarrow> Inr req))"
  using assms by (simp add: PrepareDurableLinkRequest_def Let_def)

lemma PrepareDurableLinkRequest_structured:
  assumes "\<nexists>longLink. input ''longDurableLink'' = Some (AnyString longLink) \<and> longLink \<noteq> []"
  shows "PrepareDurableLinkRequest s input =
     (case json_Decode (lib s) input of
        None \<Rightarrow> Inl ErrInvalidFormat
      | Some req \<Rightarrow>
          if Host (DurableLinkInfo req) = [] then Inl ErrMissingHost
          else if Link (DurableLinkInfo req) = [] then Inl ErrMissingLink
          else (case ValidateURLScheme (utils s) (Link (DurableLinkInfo req)) of
                  Some err \<Rightarrow> Inl err
                | None \<Rightarrow> Inr req))"
  using assms
  by (auto simp: PrepareDurableLinkRequest_def Let_def split: option.splits any.splits)

section \<open>Properties of the preview normalization\<close>

lemma removePreviewFromHost_prefix: "removePreviewFromHost (''preview.'' @ r) = r"
  unfolding removePreviewFromHost_def
  by (simp only: HasPrefix_append TrimPrefix_append if_True)

lemma removePreviewFromHost_label:
  assumes l: "CHR ''.'' \<notin> set l"
  shows "removePreviewFromHost (l @ ''-preview.'' @ r) = l @ ''.'' @ r"
proof -
  have np: "\<not> HasPrefix (l @ ''-preview.'' @ r) ''preview.''"
    by (rule label_not_preview_prefix [OF l])
  have tw: "takeWhile (\<lambda>x. x \<noteq> CHR ''.'') ((l @ ''-preview'') @ CHR ''.'' # r) = l @ ''-preview''"
    by (rule takeWhile_label) (use l in simp)
  have dw: "dropWhile (\<lambda>x. x \<noteq> CHR ''.'') ((l @ ''-preview'') @ CHR ''.'' # r) = CHR ''.'' # r"
    by (rule dropWhile_label) (use l in simp)
  have sp: "SplitN (l @ ''-preview.'' @ r) (CHR ''.'') 2 = [l @ ''-preview'', r]"
    using tw dw by (simp add: numeral_2_eq_2 SplitN_two)
  have hs: "HasSuffix (l @ ''-preview'') ''-preview''"
    by (auto simp: HasSuffix_iff)
  show ?thesis
    unfolding removePreviewFromHost_def
    by (simp only: np sp if_False Let_def) (simp add: hs TrimSuffix_append)
qed

lemma removePreviewFromHost_other:
  assumes h: "\<not> HasPrefix h ''preview.''
    \<and> (\<nexists>l' r'. CHR ''.'' \<notin> set l' \<and> h = l' @ ''-preview.'' @ r')"
  shows "removePreviewFromHost h = h"
proof (cases "CHR ''.'' \<in> set h")
  case False
  then show ?thesis using h
    by (simp add: removePreviewFromHost_def Let_def numeral_2_eq_2 SplitN_two)
next
  case True
  let ?a = "takeWhile (\<lambda>x. x \<noteq> CHR ''.'') h"
  obtain b where hd: "dropWhile (\<lambda>x. x \<noteq> CHR ''.'') h = CHR ''.'' # b"
    using dropWhile_found [OF True] by blast
  let ?b = "tl (dropWhile (\<lambda>x. x \<noteq> CHR ''.'') h)"
  have dot: "CHR ''.'' \<notin> set ?a"
    by (auto dest: set_takeWhileD)
  have "h = ?a @ dropWhile (\<lambda>x. x \<noteq> CHR ''.'') h"
    by simp
  then have split: "h = ?a @ CHR ''.'' # ?b"
    using hd by simp
  have "\<not> HasSuffix ?a ''-preview''"
  proof
    assume "HasSuffix ?a ''-preview''"
    then obtain l' where l': "?a = l' @ ''-preview''" by (auto simp: HasSuffix_iff)
    with dot have "CHR ''.'' \<notin> set l'" by simp
    moreover have "h = l' @ ''-preview.'' @ ?b" using split l' by simp
    ultimately show False using h by blast
  qed
  then show ?thesis using h True
    by (simp add: removePreviewFromHost_def Let_def numeral_2_eq_2 SplitN_two)
qed

section \<open>Claims\<close>

text \<open>
  C9. Preview normalization. A host that starts with \<^verbatim>\<open>preview.\<close> loses that prefix; a host
  whose first dot-separated label ends with \<^verbatim>\<open>-preview\<close> loses that suffix of the label;
  every other host is returned unchanged. In particular \<^verbatim>\<open>preview.foo.com\<close> becomes
  \<^verbatim>\<open>foo.com\<close>, \<^verbatim>\<open>foo-preview.bar.com\<close> becomes \<^verbatim>\<open>foo.bar.com\<close>, and \<^verbatim>\<open>foo.com\<close> stays.
\<close>

theorem removePreviewFromHost_cases:
  "removePreviewFromHost (''preview.'' @ r) = r
   \<and> (CHR ''.'' \<notin> set l \<longrightarrow> removePreviewFromHost (l @ ''-preview.'' @ r) = l @ ''.'' @ r)
   \<and> (\<not> HasPrefix h ''preview.''
        \<and> (\<nexists>l' r'. CHR ''.'' \<notin> set l' \<and> h = l' @ ''-preview.'' @ r')
        \<longrightarrow> removePreviewFromHost h = h)
   \<and> removePreviewFromHost ''preview.foo.com'' = ''foo.com''
   \<and> removePreviewFromHost ''foo-preview.bar.com'' = ''foo.bar.com''
   \<and> removePreviewFromHost ''foo.com'' = ''foo.com''"
proof (intro conjI impI)
  show "removePreviewFromHost (''preview.'' @ r) = r"
    by (rule removePreviewFromHost_prefix)
next
  assume "CHR ''.'' \<notin> set l"
  then show "removePreviewFromHost (l @ ''-preview.'' @ r) = l @ ''.'' @ r"
    by (rule removePreviewFromHost_label)
next
  assume "\<not> HasPrefix h ''preview.''
    \<and> (\<nexists>l' r'. CHR ''.'' \<notin> set l' \<and> h = l' @ ''-preview.'' @ r')"
  then show "removePreviewFromHost h = h"
    by (rule removePreviewFromHost_other)
qed (simp_all add: removePreviewFromHost_def HasPrefix_def HasSuffix_def TrimPrefix_def
      TrimSuffix_def numeral_2_eq_2)

theorem removePreviewFromHost_cases_witness:
  "CHR ''.'' \<notin> set ''acme''
   \<and> removePreviewFromHost ''acme-preview.short.link'' = ''acme.short.link''
   \<and> \<not> HasPrefix ''short.link'' ''preview.''
   \<and> removePreviewFromHost ''short.link'' = ''short.link''"
proof -
  have no_label: "\<nexists>l' r'. CHR ''.'' \<notin> set l' \<and> ''short.link'' = l' @ ''-preview.'' @ r'"
  proof
    assume "\<exists>l' r'. CHR ''.'' \<notin> set l' \<and> ''short.link'' = l' @ ''-preview.'' @ r'"
    then obtain l' r' where d: "CHR ''.'' \<notin> set l'"
      and e: "''short.link'' = (l' @ ''-preview'') @ CHR ''.'' # r'"
      by auto
    have t: "takeWhile (\<lambda>x. x \<noteq> CHR ''.'') ((l' @ ''-preview'') @ CHR ''.'' # r') = l' @ ''-preview''"
      by (rule takeWhile_label) (use d in simp)
    have "takeWhile (\<lambda>x. x \<noteq> CHR ''.'') ''short.link'' = l' @ ''-preview''"
      by (subst e) (rule t)
    then have "l' @ ''-preview'' = ''short''" by simp
    then have "last (l' @ ''-preview'') = last ''short''" by (rule arg_cong)
    then show False by simp
  qed
  have np: "\<not> HasPrefix ''short.link'' ''preview.''"
    by (simp add: HasPrefix_def)
  have dot: "CHR ''.'' \<notin> set ''acme''"
    by simp
  from removePreviewFromHost_cases [of "''short.link''" "''acme''" "''short.link''"] np no_label dot
  show ?thesis by simp
qed

text \<open>
  C1 (as amended). For every stored record hit during resolution, \<open>ResolveShortPath\<close> builds
  the long link \<^verbatim>\<open>scheme://host/path?rawQuery\<close>, without the \<^verbatim>\<open>?\<close> when the stored query is
  empty, and \<open>host\<close> is the normalized host: the host with the preview marker removed is both
  the lookup key and the authority of the long link.
\<close>

theorem ResolveShortPath_hit:
  assumes "url_Parse (lib s) rawURL = Some u"
    and "Split (Trim (URL_Path u) ''/'') (CHR ''/'') = [path]"
    and "GetQueryParamsByHostAndPath (repo s) db (removePreviewFromHost (URL_Host u)) path
           = Inr rawQuery"
  shows "ResolveShortPath s db rawURL =
           Inr \<lparr>LongLink = URLScheme (App (cfg s)) @ ''://'' @ removePreviewFromHost (URL_Host u)
                   @ ''/'' @ path @ (if rawQuery = [] then [] else ''?'' @ rawQuery)\<rparr>"
  using assms
  by (simp add: ResolveShortPath_def getLongLinkFromHostAndPath_def Let_def)

text \<open>
  The claim as first stated asks for the requested host in the long link. A record stored
  for \<^verbatim>\<open>foo.com\<close> and requested through \<^verbatim>\<open>preview.foo.com\<close> resolves to a link on \<^verbatim>\<open>foo.com\<close>.
\<close>

theorem ResolveShortPath_original_host_counterexample:
  "ResolveShortPath exampleService previewStore ''https://preview.foo.com/abc''
     = Inr \<lparr>LongLink = ''https://foo.com/abc?link=https%3A%2F%2Fexample.com''\<rparr>
   \<and> ResolveShortPath exampleService previewStore ''https://preview.foo.com/abc''
     \<noteq> Inr \<lparr>LongLink = ''https://preview.foo.com/abc?link=https%3A%2F%2Fexample.com''\<rparr>"
  by code_simp

theorem ResolveShortPath_hit_witness:
  "ResolveShortPath exampleService previewStore ''https://preview.foo.com/abc/''
     = Inr \<lparr>LongLink = ''https://foo.com/abc?link=https%3A%2F%2Fexample.com''\<rparr>"
proof -
  have p: "url_Parse (lib exampleService) ''https://preview.foo.com/abc/''
             = Some \<lparr>URL_Scheme = ''https'', URL_Host = ''preview.foo.com'',
                     URL_Path = ''/abc/'', URL_RawQuery = []\<rparr>"
    by code_simp
  have sp: "Split (Trim (URL_Path \<lparr>URL_Scheme = ''https'', URL_Host = ''preview.foo.com'',
                     URL_Path = ''/abc/'', URL_RawQuery = []\<rparr>) ''/'') (CHR ''/'') = [''abc'']"
    by code_simp
  have g: "GetQueryParamsByHostAndPath (repo exampleService) previewStore
             (removePreviewFromHost (URL_Host \<lparr>URL_Scheme = ''https'', URL_Host = ''preview.foo.com'',
                     URL_Path = ''/abc/'', URL_RawQuery = []\<rparr>)) ''abc''
             = Inr ''link=https%3A%2F%2Fexample.com''"
    by code_simp
  have sch: "URLScheme (App (cfg exampleService)) = ''https''"
    by code_simp
  have h: "removePreviewFromHost ''preview.foo.com'' = ''foo.com''"
    by code_simp
  show ?thesis
    using ResolveShortPath_hit [OF p sp g] by (simp add: sch h)
qed

text \<open>
  C8 (as amended). An unparsable URL yields \<open>ErrInvalidRequestedLink\<close>. The path, trimmed of
  leading and trailing slashes, is split at the slashes: when a slash is left inside it
  (two or more segments, as in \<^verbatim>\<open>/a/b\<close>) the result is \<open>ErrInvalidPathFormat\<close>, whatever the
  repository holds; otherwise the trimmed path, empty or not, is the one segment and the
  lookup is made with it.
\<close>

theorem ResolveShortPath_path_format:
  "(url_Parse (lib s) rawURL = None \<longrightarrow> ResolveShortPath s db rawURL = Inl ErrInvalidRequestedLink)
   \<and> (url_Parse (lib s) rawURL = Some u \<and> CHR ''/'' \<in> set (Trim (URL_Path u) ''/'') \<longrightarrow>
        ResolveShortPath s db rawURL = Inl (Wrapped ''unexpected path format'' ErrInvalidPathFormat))
   \<and> (url_Parse (lib s) rawURL = Some u \<and> CHR ''/'' \<notin> set (Trim (URL_Path u) ''/'') \<longrightarrow>
        ResolveShortPath s db rawURL =
          getLongLinkFromHostAndPath s db (removePreviewFromHost (URL_Host u))
            (Trim (URL_Path u) ''/''))"
  by (auto simp: ResolveShortPath_def Let_def Split_single_iff Split_no_sep)

text \<open>
  The claim as first stated rejects an empty path. The request \<^verbatim>\<open>https://x.link/\<close> reaches the
  repository instead: the answer is the repository's, not-found on an empty store and the
  long link when a record with the empty path exists.
\<close>

theorem ResolveShortPath_empty_path_counterexample:
  "ResolveShortPath exampleService [] ''https://x.link/'' = Inl ErrNoRows
   \<and> ResolveShortPath exampleService
        [\<lparr>rec_host = ''x.link'', rec_path = [], rec_query = ''link=https%3A%2F%2Fexample.com'',
          rec_unguessable = False\<rparr>] ''https://x.link/''
      = Inr \<lparr>LongLink = ''https://x.link/?link=https%3A%2F%2Fexample.com''\<rparr>"
  by code_simp

theorem ResolveShortPath_path_format_witness:
  "url_Parse (lib exampleService) (CHR 0x7F # ''x'') = None
   \<and> ResolveShortPath exampleService [] (CHR 0x7F # ''x'') = Inl ErrInvalidRequestedLink
   \<and> CHR ''/'' \<in> set (Trim ''/a/b'' ''/'')
   \<and> ResolveShortPath exampleService [] ''https://x.link/a/b''
       = Inl (Wrapped ''unexpected path format'' ErrInvalidPathFormat)
   \<and> CHR ''/'' \<notin> set (Trim ''/abc'' ''/'')
   \<and> ResolveShortPath exampleService previewStore ''https://foo.com/abc''
       = Inr \<lparr>LongLink = ''https://foo.com/abc?link=https%3A%2F%2Fexample.com''\<rparr>"
proof -
  have p0: "url_Parse (lib exampleService) (CHR 0x7F # ''x'') = None"
    by code_simp
  have p1: "url_Parse (lib exampleService) ''https://x.link/a/b''
             = Some \<lparr>URL_Scheme = ''https'', URL_Host = ''x.link'', URL_Path = ''/a/b'',
                     URL_RawQuery = []\<rparr>"
    by code_simp
  have p2: "url_Parse (lib exampleService) ''https://foo.com/abc''
             = Some \<lparr>URL_Scheme = ''https'', URL_Host = ''foo.com'', URL_Path = ''/abc'',
                     URL_RawQuery = []\<rparr>"
    by code_simp
  have t1: "CHR ''/'' \<in> set (Trim ''/a/b'' ''/'')" by code_simp
  have t2: "CHR ''/'' \<notin> set (Trim ''/abc'' ''/'')" by code_simp
  have g: "getLongLinkFromHostAndPath exampleService previewStore
             (removePreviewFromHost ''foo.com'') (Trim ''/abc'' ''/'')
           = Inr \<lparr>LongLink = ''https://foo.com/abc?link=https%3A%2F%2Fexample.com''\<rparr>"
    by code_simp
  from ResolveShortPath_path_format [of exampleService "CHR 0x7F # ''x''" "[]"] p0
  have a: "ResolveShortPath exampleService [] (CHR 0x7F # ''x'') = Inl ErrInvalidRequestedLink"
    by blast
  from ResolveShortPath_path_format [of exampleService "''https://x.link/a/b''" "[]"
      "\<lparr>URL_Scheme = ''https'', URL_Host = ''x.link'', URL_Path = ''/a/b'', URL_RawQuery = []\<rparr>"]
    p1 t1
  have b: "ResolveShortPath exampleService [] ''https://x.link/a/b''
       = Inl (Wrapped ''unexpected path format'' ErrInvalidPathFormat)"
    by simp
  from ResolveShortPath_path_format [of exampleService "''https://foo.com/abc''" previewStore
      "\<lparr>URL_Scheme = ''https'', URL_Host = ''foo.com'', URL_Path = ''/abc'', URL_RawQuery = []\<rparr>"]
    p2 t2 g
  have c: "ResolveShortPath exampleService previewStore ''https://foo.com/abc''
       = Inr \<lparr>LongLink = ''https://foo.com/abc?link=https%3A%2F%2Fexample.com''\<rparr>"
    by simp
  from p0 a t1 b t2 c show ?thesis by blast
qed







text \<open>
  C4. Allocation. With a short suffix, a guessable record found for the host and the
  serialised query is reused: its link is returned, the store is unchanged and no token is
  generated. When nothing is found, or the suffix is not short, the path is the token that
  the generator returns for the configured length (the short length for a short suffix, the
  unguessable length otherwise; a generator that keeps its contract returns an
  alphanumeric token of that length), the record is stored under (host, path) with
  \<open>unguessable\<close> set exactly when the suffix is not short, and the link of the new path is
  returned. \<open>CreateDurableLink\<close> calls the allocator with the cleaned host, the query of the
  request and \<open>shortPath\<close> true exactly when the suffix option is \<^verbatim>\<open>SHORT\<close>.
\<close>

theorem createOrGetShortLink_allocation:
  "(shortPath \<and> FindExistingShortLink (repo s) db host (Encode queryParams) = Inr existing \<longrightarrow>
      createOrGetShortLink s db rnd host queryParams shortPath =
        (Inr \<lparr>ShortLink = URLScheme (App (cfg s)) @ ''://'' @ host @ ''/'' @ existing,
              Warnings = []\<rparr>, db, rnd))
   \<and> ((\<not> shortPath \<or> FindExistingShortLink (repo s) db host (Encode queryParams) = Inl ErrNoRows) \<longrightarrow>
        (let len = (if shortPath then ShortPathLength (App (cfg s))
                    else UnguessablePathLength (App (cfg s)));
             token = fst (GenerateRandomAlphanumericString (utils s) rnd len);
             rnd' = snd (GenerateRandomAlphanumericString (utils s) rnd len);
             stored = CreateShortLink (repo s) db host token (Encode queryParams) (\<not> shortPath)
         in (fst stored = None \<longrightarrow>
               createOrGetShortLink s db rnd host queryParams shortPath =
                 (Inr \<lparr>ShortLink = URLScheme (App (cfg s)) @ ''://'' @ host @ ''/'' @ token,
                       Warnings = []\<rparr>, snd stored, rnd'))
            \<and> (tokenContract (GenerateRandomAlphanumericString (utils s)) \<and> 0 \<le> len \<longrightarrow>
                 int (length token) = len \<and> list_all (\<lambda>c. isLetter c \<or> isDigit c) token)))
   \<and> (CleanHost (utils s) (Host (DurableLinkInfo params)) = Inr host
        \<and> IsDomainAllowed (utils s) (AllowedDomains (App (cfg s))) (Link (DurableLinkInfo params))
        \<and> (IosAppStoreId (IosParameters (DurableLinkInfo params)) = []
            \<or> IsNumericString (utils s) (IosAppStoreId (IosParameters (DurableLinkInfo params)))) \<longrightarrow>
        CreateDurableLink s db rnd params =
          (case createOrGetShortLink s db rnd host (linkQueryParams params)
                  (Option (Suffix params) = ''SHORT'') of
             (Inl err, db', rnd') \<Rightarrow> (Inl err, db', rnd')
           | (Inr response, db', rnd') \<Rightarrow>
               (Inr (response\<lparr>Warnings := linkWarnings s params\<rparr>), db', rnd')))"
proof (intro conjI impI)
  assume "shortPath \<and> FindExistingShortLink (repo s) db host (Encode queryParams) = Inr existing"
  then show "createOrGetShortLink s db rnd host queryParams shortPath =
        (Inr \<lparr>ShortLink = URLScheme (App (cfg s)) @ ''://'' @ host @ ''/'' @ existing,
              Warnings = []\<rparr>, db, rnd)"
    by (simp add: createOrGetShortLink_hit)
next
  assume miss: "\<not> shortPath \<or> FindExistingShortLink (repo s) db host (Encode queryParams) = Inl ErrNoRows"
  show "let len = (if shortPath then ShortPathLength (App (cfg s))
                    else UnguessablePathLength (App (cfg s)));
             token = fst (GenerateRandomAlphanumericString (utils s) rnd len);
             rnd' = snd (GenerateRandomAlphanumericString (utils s) rnd len);
             stored = CreateShortLink (repo s) db host token (Encode queryParams) (\<not> shortPath)
         in (fst stored = None \<longrightarrow>
               createOrGetShortLink s db rnd host queryParams shortPath =
                 (Inr \<lparr>ShortLink = URLScheme (App (cfg s)) @ ''://'' @ host @ ''/'' @ token,
                       Warnings = []\<rparr>, snd stored, rnd'))
            \<and> (tokenContract (GenerateRandomAlphanumericString (utils s)) \<and> 0 \<le> len \<longrightarrow>
                 int (length token) = len \<and> list_all (\<lambda>c. isLetter c \<or> isDigit c) token)"
    unfolding createOrGetShortLink_allocate [OF miss]
    by (auto simp: allocateShortLink_def createShortLink_def tokenContract_def Let_def)
next
  assume "CleanHost (utils s) (Host (DurableLinkInfo params)) = Inr host
        \<and> IsDomainAllowed (utils s) (AllowedDomains (App (cfg s))) (Link (DurableLinkInfo params))
        \<and> (IosAppStoreId (IosParameters (DurableLinkInfo params)) = []
            \<or> IsNumericString (utils s) (IosAppStoreId (IosParameters (DurableLinkInfo params))))"
  then show "CreateDurableLink s db rnd params =
          (case createOrGetShortLink s db rnd host (linkQueryParams params)
                  (Option (Suffix params) = ''SHORT'') of
             (Inl err, db', rnd') \<Rightarrow> (Inl err, db', rnd')
           | (Inr response, db', rnd') \<Rightarrow>
               (Inr (response\<lparr>Warnings := linkWarnings s params\<rparr>), db', rnd'))"
    by (auto simp: CreateDurableLink_def Let_def)
qed


theorem createOrGetShortLink_allocation_witness:
  "createOrGetShortLink exampleService reuseStore 1 ''x.link'' [(''link'', [''https://example.com''])] True
     = (Inr \<lparr>ShortLink = ''https://x.link/abc123'', Warnings = []\<rparr>, reuseStore, 1)
   \<and> createOrGetShortLink exampleService [] 1 ''x.link'' [(''link'', [''https://example.com''])] True
     = (Inr \<lparr>ShortLink = ''https://x.link/glc9oL'', Warnings = []\<rparr>,
        [\<lparr>rec_host = ''x.link'', rec_path = ''glc9oL'',
          rec_query = ''link=https%3A%2F%2Fexample.com'', rec_unguessable = False\<rparr>],
        368800899)
   \<and> int (length ''glc9oL'') = ShortPathLength (App (cfg exampleService))
   \<and> createOrGetShortLink exampleService reuseStore 1 ''x.link'' [(''link'', [''https://example.com''])] False
     = (Inr \<lparr>ShortLink = ''https://x.link/glc9oLURq3'', Warnings = []\<rparr>,
        reuseStore @
        [\<lparr>rec_host = ''x.link'', rec_path = ''glc9oLURq3'',
          rec_query = ''link=https%3A%2F%2Fexample.com'', rec_unguessable = True\<rparr>],
        267834847)
   \<and> int (length ''glc9oLURq3'') = UnguessablePathLength (App (cfg exampleService))
   \<and> CreateDurableLink exampleService [] 1 exampleRequest
     = (Inr \<lparr>ShortLink = ''https://x.link/glc9oL'', Warnings = []\<rparr>,
        [\<lparr>rec_host = ''x.link'', rec_path = ''glc9oL'',
          rec_query = ''link=https%3A%2F%2Fexample.com'', rec_unguessable = False\<rparr>],
        368800899)"
proof -
  let ?q = "[(''link'', [''https://example.com''])]"
  let ?raw = "''link=https%3A%2F%2Fexample.com''"
  have enc: "Encode ?q = ?raw" by code_simp
  have contract: "tokenContract (GenerateRandomAlphanumericString (utils exampleService))"
    by (simp add: exampleService_def modelUtils_def tokenContract_generate)
  have hit: "True \<and> FindExistingShortLink (repo exampleService) reuseStore ''x.link'' (Encode ?q)
               = Inr ''abc123''"
    by code_simp
  have a: "createOrGetShortLink exampleService reuseStore 1 ''x.link'' ?q True
     = (Inr \<lparr>ShortLink = ''https://x.link/abc123'', Warnings = []\<rparr>, reuseStore, 1)"
  proof -
    have scheme: "URLScheme (App (cfg exampleService)) @ ''://'' @ ''x.link'' @ ''/'' @ ''abc123''
                    = ''https://x.link/abc123''"
      by code_simp
    from createOrGetShortLink_allocation
      [where shortPath = True and s = exampleService and db = reuseStore and host = "''x.link''"
         and queryParams = ?q and existing = "''abc123''" and rnd = 1] hit
    show ?thesis unfolding scheme by blast
  qed
  have miss: "\<not> True \<or> FindExistingShortLink (repo exampleService) [] ''x.link'' (Encode ?q)
                = Inl ErrNoRows"
    by code_simp
  have len6: "(if True then ShortPathLength (App (cfg exampleService))
               else UnguessablePathLength (App (cfg exampleService))) = 6"
    by code_simp
  have gen6: "GenerateRandomAlphanumericString (utils exampleService) 1 6 = (''glc9oL'', 368800899)"
    by code_simp
  have put6: "CreateShortLink (repo exampleService) [] ''x.link'' ''glc9oL'' (Encode ?q) (\<not> True)
      = (None, [\<lparr>rec_host = ''x.link'', rec_path = ''glc9oL'',
                  rec_query = ''link=https%3A%2F%2Fexample.com'', rec_unguessable = False\<rparr>])"
    by code_simp
  have scheme6: "URLScheme (App (cfg exampleService)) @ ''://'' @ ''x.link'' @ ''/'' @ ''glc9oL''
                    = ''https://x.link/glc9oL''"
    by code_simp
  have b: "createOrGetShortLink exampleService [] 1 ''x.link'' ?q True
     = (Inr \<lparr>ShortLink = ''https://x.link/glc9oL'', Warnings = []\<rparr>,
        [\<lparr>rec_host = ''x.link'', rec_path = ''glc9oL'',
          rec_query = ''link=https%3A%2F%2Fexample.com'', rec_unguessable = False\<rparr>],
        368800899)
     \<and> int (length ''glc9oL'') = ShortPathLength (App (cfg exampleService))"
    using createOrGetShortLink_allocation
      [where shortPath = True and s = exampleService and db = "[]" and host = "''x.link''"
         and queryParams = ?q and rnd = 1] miss contract
    unfolding len6 Let_def gen6 fst_conv snd_conv put6 scheme6
    using len6 by simp
  have miss': "\<not> False \<or> FindExistingShortLink (repo exampleService) reuseStore ''x.link'' (Encode ?q)
                = Inl ErrNoRows"
    by simp
  have len10: "(if False then ShortPathLength (App (cfg exampleService))
               else UnguessablePathLength (App (cfg exampleService))) = 10"
    by code_simp
  have gen10: "GenerateRandomAlphanumericString (utils exampleService) 1 10
                 = (''glc9oLURq3'', 267834847)"
    by code_simp
  have put10: "CreateShortLink (repo exampleService) reuseStore ''x.link'' ''glc9oLURq3'' (Encode ?q)
                 (\<not> False)
      = (None, reuseStore @ [\<lparr>rec_host = ''x.link'', rec_path = ''glc9oLURq3'',
                  rec_query = ''link=https%3A%2F%2Fexample.com'', rec_unguessable = True\<rparr>])"
    by code_simp
  have scheme10: "URLScheme (App (cfg exampleService)) @ ''://'' @ ''x.link'' @ ''/'' @ ''glc9oLURq3''
                    = ''https://x.link/glc9oLURq3''"
    by code_simp
  have c: "createOrGetShortLink exampleService reuseStore 1 ''x.link'' ?q False
     = (Inr \<lparr>ShortLink = ''https://x.link/glc9oLURq3'', Warnings = []\<rparr>,
        reuseStore @
        [\<lparr>rec_host = ''x.link'', rec_path = ''glc9oLURq3'',
          rec_query = ''link=https%3A%2F%2Fexample.com'', rec_unguessable = True\<rparr>],
        267834847)
     \<and> int (length ''glc9oLURq3'') = UnguessablePathLength (App (cfg exampleService))"
    using createOrGetShortLink_allocation
      [where shortPath = False and s = exampleService and db = reuseStore and host = "''x.link''"
         and queryParams = ?q and rnd = 1] miss' contract
    unfolding len10 Let_def gen10 fst_conv snd_conv put10 scheme10
    using len10 by simp
  have valid: "CleanHost (utils exampleService) (Host (DurableLinkInfo exampleRequest)) = Inr ''x.link''
            \<and> IsDomainAllowed (utils exampleService) (AllowedDomains (App (cfg exampleService)))
                  (Link (DurableLinkInfo exampleRequest))
            \<and> (IosAppStoreId (IosParameters (DurableLinkInfo exampleRequest)) = []
                \<or> IsNumericString (utils exampleService)
                     (IosAppStoreId (IosParameters (DurableLinkInfo exampleRequest))))"
    by code_simp
  have request: "linkQueryParams exampleRequest = ?q"
    "(Option (Suffix exampleRequest) = ''SHORT'') = True"
    "linkWarnings exampleService exampleRequest = []"
    by code_simp+
  have d: "CreateDurableLink exampleService [] 1 exampleRequest
     = (Inr \<lparr>ShortLink = ''https://x.link/glc9oL'', Warnings = []\<rparr>,
        [\<lparr>rec_host = ''x.link'', rec_path = ''glc9oL'',
          rec_query = ''link=https%3A%2F%2Fexample.com'', rec_unguessable = False\<rparr>],
        368800899)"
    using createOrGetShortLink_allocation
      [where s = exampleService and params = exampleRequest and host = "''x.link''"
         and db = "[]" and rnd = 1] valid b
    unfolding request by simp
  from a b c d show ?thesis by blast
qed

text \<open>
  C7 (as amended). Every error of creation and resolution is returned to the caller with no
  internal recovery: a failure of the reuse lookup other than not-found as it is, a failure
  of the persistence put (a duplicate path included) wrapped as \<^verbatim>\<open>failed to store link\<close>
  after one attempt with one generated token, a rejected host wrapped as \<^verbatim>\<open>invalid host\<close>,
  a target link outside the allow-list, a non-numeric store id, an error of the allocator
  and a failure of the resolution lookup as they are. The one error handled inside is the
  not-found answer of the reuse lookup, after which a new path is allocated.
\<close>

theorem errors_returned_without_retry:
  "(shortPath \<and> FindExistingShortLink (repo s) db host (Encode queryParams) = Inl err
      \<and> err \<noteq> ErrNoRows \<longrightarrow>
      createOrGetShortLink s db rnd host queryParams shortPath = (Inl err, db, rnd))
   \<and> ((\<not> shortPath \<or> FindExistingShortLink (repo s) db host (Encode queryParams) = Inl ErrNoRows)
        \<and> len = (if shortPath then ShortPathLength (App (cfg s))
                  else UnguessablePathLength (App (cfg s)))
        \<and> CreateShortLink (repo s) db host
             (fst (GenerateRandomAlphanumericString (utils s) rnd len)) (Encode queryParams)
             (\<not> shortPath) = (Some err, db') \<longrightarrow>
        createOrGetShortLink s db rnd host queryParams shortPath
          = (Inl (Wrapped ''failed to store link'' err), db',
             snd (GenerateRandomAlphanumericString (utils s) rnd len)))
   \<and> (CleanHost (utils s) (Host (DurableLinkInfo params)) = Inl err \<longrightarrow>
        CreateDurableLink s db rnd params = (Inl (Wrapped ''invalid host'' err), db, rnd))
   \<and> (CleanHost (utils s) (Host (DurableLinkInfo params)) = Inr host
        \<and> \<not> IsDomainAllowed (utils s) (AllowedDomains (App (cfg s))) (Link (DurableLinkInfo params)) \<longrightarrow>
        CreateDurableLink s db rnd params = (Inl ErrDomainLinkNotAllowed, db, rnd))
   \<and> (CleanHost (utils s) (Host (DurableLinkInfo params)) = Inr host
        \<and> IsDomainAllowed (utils s) (AllowedDomains (App (cfg s))) (Link (DurableLinkInfo params))
        \<and> IosAppStoreId (IosParameters (DurableLinkInfo params)) \<noteq> []
        \<and> \<not> IsNumericString (utils s) (IosAppStoreId (IosParameters (DurableLinkInfo params))) \<longrightarrow>
        CreateDurableLink s db rnd params = (Inl ErrInvalidAppStoreID, db, rnd))
   \<and> (CleanHost (utils s) (Host (DurableLinkInfo params)) = Inr host
        \<and> IsDomainAllowed (utils s) (AllowedDomains (App (cfg s))) (Link (DurableLinkInfo params))
        \<and> (IosAppStoreId (IosParameters (DurableLinkInfo params)) = []
            \<or> IsNumericString (utils s) (IosAppStoreId (IosParameters (DurableLinkInfo params))))
        \<and> createOrGetShortLink s db rnd host (linkQueryParams params)
             (Option (Suffix params) = ''SHORT'') = (Inl err, db', rnd') \<longrightarrow>
        CreateDurableLink s db rnd params = (Inl err, db', rnd'))
   \<and> (url_Parse (lib s) rawURL = Some u
        \<and> Split (Trim (URL_Path u) ''/'') (CHR ''/'') = [path]
        \<and> GetQueryParamsByHostAndPath (repo s) db (removePreviewFromHost (URL_Host u)) path
            = Inl err \<longrightarrow>
        ResolveShortPath s db rawURL = Inl err)"
proof (intro conjI impI)
  assume "shortPath \<and> FindExistingShortLink (repo s) db host (Encode queryParams) = Inl err
      \<and> err \<noteq> ErrNoRows"
  then show "createOrGetShortLink s db rnd host queryParams shortPath = (Inl err, db, rnd)"
    by (simp add: createOrGetShortLink_lookup_error)
next
  assume a: "(\<not> shortPath \<or> FindExistingShortLink (repo s) db host (Encode queryParams) = Inl ErrNoRows)
        \<and> len = (if shortPath then ShortPathLength (App (cfg s))
                  else UnguessablePathLength (App (cfg s)))
        \<and> CreateShortLink (repo s) db host
             (fst (GenerateRandomAlphanumericString (utils s) rnd len)) (Encode queryParams)
             (\<not> shortPath) = (Some err, db')"
  then have miss: "\<not> shortPath \<or> FindExistingShortLink (repo s) db host (Encode queryParams) = Inl ErrNoRows"
    by blast
  show "createOrGetShortLink s db rnd host queryParams shortPath
          = (Inl (Wrapped ''failed to store link'' err), db',
             snd (GenerateRandomAlphanumericString (utils s) rnd len))"
    unfolding createOrGetShortLink_allocate [OF miss]
  proof (rule allocateShortLink_put_error)
    show "CreateShortLink (repo s) db host
             (fst (GenerateRandomAlphanumericString (utils s) rnd len)) (Encode queryParams)
             (\<not> shortPath) = (Some err, db')"
      using a by blast
    show "len = (if shortPath then ShortPathLength (App (cfg s))
                  else UnguessablePathLength (App (cfg s)))"
      using a by blast
  qed
next
  assume "CleanHost (utils s) (Host (DurableLinkInfo params)) = Inl err"
  then show "CreateDurableLink s db rnd params = (Inl (Wrapped ''invalid host'' err), db, rnd)"
    by (simp add: CreateDurableLink_def)
next
  assume "CleanHost (utils s) (Host (DurableLinkInfo params)) = Inr host
        \<and> \<not> IsDomainAllowed (utils s) (AllowedDomains (App (cfg s))) (Link (DurableLinkInfo params))"
  then show "CreateDurableLink s db rnd params = (Inl ErrDomainLinkNotAllowed, db, rnd)"
    by (simp add: CreateDurableLink_def)
next
  assume "CleanHost (utils s) (Host (DurableLinkInfo params)) = Inr host
        \<and> IsDomainAllowed (utils s) (AllowedDomains (App (cfg s))) (Link (DurableLinkInfo params))
        \<and> IosAppStoreId (IosParameters (DurableLinkInfo params)) \<noteq> []
        \<and> \<not> IsNumericString (utils s) (IosAppStoreId (IosParameters (DurableLinkInfo params)))"
  then show "CreateDurableLink s db rnd params = (Inl ErrInvalidAppStoreID, db, rnd)"
    by (simp add: CreateDurableLink_def Let_def)
next
  assume "CleanHost (utils s) (Host (DurableLinkInfo params)) = Inr host
        \<and> IsDomainAllowed (utils s) (AllowedDomains (App (cfg s))) (Link (DurableLinkInfo params))
        \<and> (IosAppStoreId (IosParameters (DurableLinkInfo params)) = []
            \<or> IsNumericString (utils s) (IosAppStoreId (IosParameters (DurableLinkInfo params))))
        \<and> createOrGetShortLink s db rnd host (linkQueryParams params)
             (Option (Suffix params) = ''SHORT'') = (Inl err, db', rnd')"
  then show "CreateDurableLink s db rnd params = (Inl err, db', rnd')"
    by (auto simp: CreateDurableLink_def Let_def)
next
  assume "url_Parse (lib s) rawURL = Some u
        \<and> Split (Trim (URL_Path u) ''/'') (CHR ''/'') = [path]
        \<and> GetQueryParamsByHostAndPath (repo s) db (removePreviewFromHost (URL_Host u)) path
            = Inl err"
  then show "ResolveShortPath s db rawURL = Inl err"
    by (simp add: ResolveShortPath_def getLongLinkFromHostAndPath_def Let_def)
qed

text \<open>
  The claim as first stated has the allocator retry a duplicate path with a fresh token.
  In a store where the host already has the first generated path, the allocator returns
  the wrapped duplicate-path error after that one attempt: the store is unchanged, the
  random source has advanced by one token, and the next token would have been accepted.
\<close>

theorem createOrGetShortLink_no_retry_counterexample:
  "createOrGetShortLink exampleService takenStore 1 ''x.link''
       [(''link'', [''https://example.com''])] True
     = (Inl (Wrapped ''failed to store link'' ErrDuplicatePath), takenStore, 368800899)
   \<and> generateRandomAlphanumericString 1 6 = (''glc9oL'', 368800899)
   \<and> generateRandomAlphanumericString 368800899 6 = (''URq30r'', 836760821)
   \<and> fst (mem_put takenStore ''x.link'' ''URq30r'' ''link=https%3A%2F%2Fexample.com'' False) = None"
  by code_simp


theorem errors_returned_without_retry_witness:
  "createOrGetShortLink brokenService [] 1 ''x.link'' [(''link'', [''https://example.com''])] True
     = (Inl (ErrOther ''connection lost''), [], 1)
   \<and> createOrGetShortLink exampleService takenStore 1 ''x.link''
         [(''link'', [''https://example.com''])] True
     = (Inl (Wrapped ''failed to store link'' ErrDuplicatePath), takenStore, 368800899)
   \<and> CreateDurableLink exampleService [] 1 emptyRequest
     = (Inl (Wrapped ''invalid host'' (ErrOther ''invalid host'')), [], 1)
   \<and> CreateDurableLink exampleService [] 1 foreignRequest = (Inl ErrDomainLinkNotAllowed, [], 1)
   \<and> CreateDurableLink exampleService [] 1 badStoreIdRequest = (Inl ErrInvalidAppStoreID, [], 1)
   \<and> CreateDurableLink exampleService takenStore 1 exampleRequest
     = (Inl (Wrapped ''failed to store link'' ErrDuplicatePath), takenStore, 368800899)
   \<and> ResolveShortPath exampleService [] ''https://x.link/abc'' = Inl ErrNoRows"
proof -
  let ?q = "[(''link'', [''https://example.com''])]"
  have h1: "True \<and> FindExistingShortLink (repo brokenService) [] ''x.link'' (Encode ?q)
                     = Inl (ErrOther ''connection lost'')
                 \<and> ErrOther ''connection lost'' \<noteq> ErrNoRows"
    by code_simp
  have c1: "createOrGetShortLink brokenService [] 1 ''x.link'' ?q True
              = (Inl (ErrOther ''connection lost''), [], 1)"
    using errors_returned_without_retry
      [where shortPath = True and s = brokenService and db = "[]" and host = "''x.link''"
         and queryParams = ?q and err = "ErrOther ''connection lost''" and rnd = 1] h1
    by blast
  have h2: "(\<not> True \<or> FindExistingShortLink (repo exampleService) takenStore ''x.link'' (Encode ?q)
                        = Inl ErrNoRows)
            \<and> 6 = (if True then ShortPathLength (App (cfg exampleService))
                    else UnguessablePathLength (App (cfg exampleService)))
            \<and> CreateShortLink (repo exampleService) takenStore ''x.link''
                 (fst (GenerateRandomAlphanumericString (utils exampleService) 1 6)) (Encode ?q)
                 (\<not> True) = (Some ErrDuplicatePath, takenStore)"
    by code_simp
  have g2: "snd (GenerateRandomAlphanumericString (utils exampleService) 1 6) = 368800899"
    by code_simp
  have c2: "createOrGetShortLink exampleService takenStore 1 ''x.link'' ?q True
              = (Inl (Wrapped ''failed to store link'' ErrDuplicatePath), takenStore, 368800899)"
    using errors_returned_without_retry
      [where shortPath = True and s = exampleService and db = takenStore and host = "''x.link''"
         and queryParams = ?q and err = ErrDuplicatePath and rnd = 1 and len = 6
         and db' = takenStore] h2
    unfolding g2 by blast
  have h3: "CleanHost (utils exampleService) (Host (DurableLinkInfo emptyRequest))
              = Inl (ErrOther ''invalid host'')"
    by code_simp
  have c3: "CreateDurableLink exampleService [] 1 emptyRequest
     = (Inl (Wrapped ''invalid host'' (ErrOther ''invalid host'')), [], 1)"
    using errors_returned_without_retry
      [where s = exampleService and params = emptyRequest and err = "ErrOther ''invalid host''"
         and db = "[]" and rnd = 1] h3
    by blast
  have h4: "CleanHost (utils exampleService) (Host (DurableLinkInfo foreignRequest)) = Inr ''x.link''
            \<and> \<not> IsDomainAllowed (utils exampleService) (AllowedDomains (App (cfg exampleService)))
                  (Link (DurableLinkInfo foreignRequest))"
    by code_simp
  have c4: "CreateDurableLink exampleService [] 1 foreignRequest = (Inl ErrDomainLinkNotAllowed, [], 1)"
    using errors_returned_without_retry
      [where s = exampleService and params = foreignRequest and host = "''x.link''"
         and db = "[]" and rnd = 1] h4
    by blast
  have h5: "CleanHost (utils exampleService) (Host (DurableLinkInfo badStoreIdRequest)) = Inr ''x.link''
            \<and> IsDomainAllowed (utils exampleService) (AllowedDomains (App (cfg exampleService)))
                  (Link (DurableLinkInfo badStoreIdRequest))
            \<and> IosAppStoreId (IosParameters (DurableLinkInfo badStoreIdRequest)) \<noteq> []
            \<and> \<not> IsNumericString (utils exampleService)
                  (IosAppStoreId (IosParameters (DurableLinkInfo badStoreIdRequest)))"
    by code_simp
  have c5: "CreateDurableLink exampleService [] 1 badStoreIdRequest = (Inl ErrInvalidAppStoreID, [], 1)"
    using errors_returned_without_retry
      [where s = exampleService and params = badStoreIdRequest and host = "''x.link''"
         and db = "[]" and rnd = 1] h5
    by blast
  have q6: "linkQueryParams exampleRequest = ?q" by code_simp
  have h6: "CleanHost (utils exampleService) (Host (DurableLinkInfo exampleRequest)) = Inr ''x.link''
            \<and> IsDomainAllowed (utils exampleService) (AllowedDomains (App (cfg exampleService)))
                  (Link (DurableLinkInfo exampleRequest))
            \<and> (IosAppStoreId (IosParameters (DurableLinkInfo exampleRequest)) = []
                \<or> IsNumericString (utils exampleService)
                     (IosAppStoreId (IosParameters (DurableLinkInfo exampleRequest))))
            \<and> (Option (Suffix exampleRequest) = ''SHORT'') = True"
    by code_simp
  have c6: "CreateDurableLink exampleService takenStore 1 exampleRequest
     = (Inl (Wrapped ''failed to store link'' ErrDuplicatePath), takenStore, 368800899)"
    using errors_returned_without_retry
      [where s = exampleService and params = exampleRequest and host = "''x.link''"
         and db = takenStore and rnd = 1 and err = "Wrapped ''failed to store link'' ErrDuplicatePath"
         and db' = takenStore and rnd' = 368800899] h6 c2
    unfolding q6 by simp
  have h7: "url_Parse (lib exampleService) ''https://x.link/abc''
              = Some \<lparr>URL_Scheme = ''https'', URL_Host = ''x.link'', URL_Path = ''/abc'',
                      URL_RawQuery = []\<rparr>
            \<and> Split (Trim (URL_Path \<lparr>URL_Scheme = ''https'', URL_Host = ''x.link'',
                      URL_Path = ''/abc'', URL_RawQuery = []\<rparr>) ''/'') (CHR ''/'') = [''abc'']
            \<and> GetQueryParamsByHostAndPath (repo exampleService) []
                 (removePreviewFromHost (URL_Host \<lparr>URL_Scheme = ''https'', URL_Host = ''x.link'',
                      URL_Path = ''/abc'', URL_RawQuery = []\<rparr>)) ''abc'' = Inl ErrNoRows"
    by code_simp
  have c7: "ResolveShortPath exampleService [] ''https://x.link/abc'' = Inl ErrNoRows"
    using errors_returned_without_retry
      [where s = exampleService and rawURL = "''https://x.link/abc''" and db = "[]"
         and u = "\<lparr>URL_Scheme = ''https'', URL_Host = ''x.link'', URL_Path = ''/abc'',
                      URL_RawQuery = []\<rparr>" and path = "''abc''" and err = ErrNoRows] h7
    by blast
  from c1 c2 c3 c4 c5 c6 c7 show ?thesis by blast
qed

text \<open>
  C5. Dependency warnings. In the result of a successful creation, the warning that \<open>p\<close> is
  not needed since \<^verbatim>\<open>isi\<close> is not specified occurs once for each non-empty \<open>p\<close> among
  \<^verbatim>\<open>at\<close>, \<^verbatim>\<open>ct\<close>, \<^verbatim>\<open>mt\<close>, \<^verbatim>\<open>pt\<close> when the store id is empty, and not otherwise; the warning
  that \<open>p\<close> is not needed since \<^verbatim>\<open>pt\<close> is not specified occurs once for each non-empty \<open>p\<close>
  among \<^verbatim>\<open>at\<close>, \<^verbatim>\<open>ct\<close>, \<^verbatim>\<open>mt\<close> when \<^verbatim>\<open>pt\<close> is empty, and not otherwise. The two checks
  are independent, so one field can be warned about twice, and there are no other
  \<^verbatim>\<open>UNRECOGNIZED_PARAM\<close> warnings. The warned parameters are in the encoded query all the
  same: reading the encoding back gives each of them its value.
\<close>

theorem CreateDurableLink_dependency_warnings:
  assumes "CreateDurableLink s db rnd params = (Inr response, db', rnd')"
  shows "let itc = ItunesConnectAnalytics (AnalyticsInfo (DurableLinkInfo params));
             isi = IosAppStoreId (IosParameters (DurableLinkInfo params));
             W = Warnings response;
             one = (\<lambda>b. if b then 1 else (0::nat));
             encoded = parseQuery [] (Encode (linkQueryParams params))
         in count_list W (unrecognized ''at'' ''isi'') = one (isi = [] \<and> At itc \<noteq> [])
          \<and> count_list W (unrecognized ''ct'' ''isi'') = one (isi = [] \<and> Ct itc \<noteq> [])
          \<and> count_list W (unrecognized ''mt'' ''isi'') = one (isi = [] \<and> Mt itc \<noteq> [])
          \<and> count_list W (unrecognized ''pt'' ''isi'') = one (isi = [] \<and> Pt itc \<noteq> [])
          \<and> count_list W (unrecognized ''at'' ''pt'') = one (Pt itc = [] \<and> At itc \<noteq> [])
          \<and> count_list W (unrecognized ''ct'' ''pt'') = one (Pt itc = [] \<and> Ct itc \<noteq> [])
          \<and> count_list W (unrecognized ''mt'' ''pt'') = one (Pt itc = [] \<and> Mt itc \<noteq> [])
          \<and> length (filter (\<lambda>w. WarningCode w = ''UNRECOGNIZED_PARAM'') W)
              = one (isi = [] \<and> At itc \<noteq> []) + one (isi = [] \<and> Ct itc \<noteq> [])
                + one (isi = [] \<and> Mt itc \<noteq> []) + one (isi = [] \<and> Pt itc \<noteq> [])
                + one (Pt itc = [] \<and> At itc \<noteq> []) + one (Pt itc = [] \<and> Ct itc \<noteq> [])
                + one (Pt itc = [] \<and> Mt itc \<noteq> [])
          \<and> Get encoded ''at'' = At itc \<and> Get encoded ''ct'' = Ct itc
          \<and> Get encoded ''mt'' = Mt itc \<and> Get encoded ''pt'' = Pt itc"
proof -
  have W: "Warnings response = linkWarnings s params"
    by (rule CreateDurableLink_warnings [OF assms])
  have c_at_isi: "count_list (linkWarnings s params) (unrecognized ''at'' ''isi'')
      = (if IosAppStoreId (IosParameters (DurableLinkInfo params)) = [] \<and> At (ItunesConnectAnalytics (AnalyticsInfo (DurableLinkInfo params))) \<noteq> [] then 1 else 0)"
    by (simp add: linkWarnings_def Let_def unrecognized_def malformed_si_def)
  have c_ct_isi: "count_list (linkWarnings s params) (unrecognized ''ct'' ''isi'')
      = (if IosAppStoreId (IosParameters (DurableLinkInfo params)) = [] \<and> Ct (ItunesConnectAnalytics (AnalyticsInfo (DurableLinkInfo params))) \<noteq> [] then 1 else 0)"
    by (simp add: linkWarnings_def Let_def unrecognized_def malformed_si_def)
  have c_mt_isi: "count_list (linkWarnings s params) (unrecognized ''mt'' ''isi'')
      = (if IosAppStoreId (IosParameters (DurableLinkInfo params)) = [] \<and> Mt (ItunesConnectAnalytics (AnalyticsInfo (DurableLinkInfo params))) \<noteq> [] then 1 else 0)"
    by (simp add: linkWarnings_def Let_def unrecognized_def malformed_si_def)
  have c_pt_isi: "count_list (linkWarnings s params) (unrecognized ''pt'' ''isi'')
      = (if IosAppStoreId (IosParameters (DurableLinkInfo params)) = [] \<and> Pt (ItunesConnectAnalytics (AnalyticsInfo (DurableLinkInfo params))) \<noteq> [] then 1 else 0)"
    by (simp add: linkWarnings_def Let_def unrecognized_def malformed_si_def)
  have c_at_pt: "count_list (linkWarnings s params) (unrecognized ''at'' ''pt'')
      = (if Pt (ItunesConnectAnalytics (AnalyticsInfo (DurableLinkInfo params))) = [] \<and> At (ItunesConnectAnalytics (AnalyticsInfo (DurableLinkInfo params))) \<noteq> [] then 1 else 0)"
    by (simp add: linkWarnings_def Let_def unrecognized_def malformed_si_def)
  have c_ct_pt: "count_list (linkWarnings s params) (unrecognized ''ct'' ''pt'')
      = (if Pt (ItunesConnectAnalytics (AnalyticsInfo (DurableLinkInfo params))) = [] \<and> Ct (ItunesConnectAnalytics (AnalyticsInfo (DurableLinkInfo params))) \<noteq> [] then 1 else 0)"
    by (simp add: linkWarnings_def Let_def unrecognized_def malformed_si_def)
  have c_mt_pt: "count_list (linkWarnings s params) (unrecognized ''mt'' ''pt'')
      = (if Pt (ItunesConnectAnalytics (AnalyticsInfo (DurableLinkInfo params))) = [] \<and> Mt (ItunesConnectAnalytics (AnalyticsInfo (DurableLinkInfo params))) \<noteq> [] then 1 else 0)"
    by (simp add: linkWarnings_def Let_def unrecognized_def malformed_si_def)
  have total: "length (filter (\<lambda>w. WarningCode w = ''UNRECOGNIZED_PARAM'') (linkWarnings s params))
     = (let itc = ItunesConnectAnalytics (AnalyticsInfo (DurableLinkInfo params));
            isi = IosAppStoreId (IosParameters (DurableLinkInfo params)) in
        (if isi = [] \<and> At itc \<noteq> [] then 1 else 0) + (if isi = [] \<and> Ct itc \<noteq> [] then 1 else 0)
        + (if isi = [] \<and> Mt itc \<noteq> [] then 1 else 0) + (if isi = [] \<and> Pt itc \<noteq> [] then 1 else 0)
        + (if Pt itc = [] \<and> At itc \<noteq> [] then 1 else 0) + (if Pt itc = [] \<and> Ct itc \<noteq> [] then 1 else 0)
        + (if Pt itc = [] \<and> Mt itc \<noteq> [] then 1 else 0))"
    by (simp add: linkWarnings_def Let_def unrecognized_code malformed_code)
  have fields: "Get (parseQuery [] (Encode (linkQueryParams params))) ''at''
                  = At (ItunesConnectAnalytics (AnalyticsInfo (DurableLinkInfo params)))"
    "Get (parseQuery [] (Encode (linkQueryParams params))) ''ct''
                  = Ct (ItunesConnectAnalytics (AnalyticsInfo (DurableLinkInfo params)))"
    "Get (parseQuery [] (Encode (linkQueryParams params))) ''mt''
                  = Mt (ItunesConnectAnalytics (AnalyticsInfo (DurableLinkInfo params)))"
    "Get (parseQuery [] (Encode (linkQueryParams params))) ''pt''
                  = Pt (ItunesConnectAnalytics (AnalyticsInfo (DurableLinkInfo params)))"
    by (simp_all add: Get_parsed_field allFields_def optionalFields_def Let_def)
  show ?thesis
    unfolding W Let_def c_at_isi c_ct_isi c_mt_isi c_pt_isi c_at_pt c_ct_pt c_mt_pt total fields
    by simp
qed


theorem CreateDurableLink_dependency_warnings_witness:
  "CreateDurableLink exampleService [] 1 (itunesRequest ''x'' [])
     = (Inr \<lparr>ShortLink = ''https://x.link/glc9oLURq3'',
              Warnings = [unrecognized ''at'' ''isi'', unrecognized ''at'' ''pt'']\<rparr>,
        [\<lparr>rec_host = ''x.link'', rec_path = ''glc9oLURq3'',
          rec_query = ''at=x&link=https%3A%2F%2Fexample.com'', rec_unguessable = True\<rparr>],
        267834847)
   \<and> count_list [unrecognized ''at'' ''isi'', unrecognized ''at'' ''pt''] (unrecognized ''at'' ''isi'') = 1
   \<and> count_list [unrecognized ''at'' ''isi'', unrecognized ''at'' ''pt''] (unrecognized ''at'' ''pt'') = 1
   \<and> count_list [unrecognized ''at'' ''isi'', unrecognized ''at'' ''pt''] (unrecognized ''pt'' ''isi'') = 0
   \<and> Get (parseQuery [] (Encode (linkQueryParams (itunesRequest ''x'' [])))) ''at'' = ''x''"
proof -
  have run: "CreateDurableLink exampleService [] 1 (itunesRequest ''x'' [])
     = (Inr \<lparr>ShortLink = ''https://x.link/glc9oLURq3'',
              Warnings = [unrecognized ''at'' ''isi'', unrecognized ''at'' ''pt'']\<rparr>,
        [\<lparr>rec_host = ''x.link'', rec_path = ''glc9oLURq3'',
          rec_query = ''at=x&link=https%3A%2F%2Fexample.com'', rec_unguessable = True\<rparr>],
        267834847)"
    by code_simp
  have fields:
    "IosAppStoreId (IosParameters (DurableLinkInfo (itunesRequest ''x'' []))) = []"
    "ItunesConnectAnalytics (AnalyticsInfo (DurableLinkInfo (itunesRequest ''x'' [])))
       = \<lparr>At = ''x'', Ct = [], Mt = [], Pt = []\<rparr>"
    by (simp_all add: itunesRequest_def emptyRequest_def)
  have "count_list [unrecognized ''at'' ''isi'', unrecognized ''at'' ''pt''] (unrecognized ''at'' ''isi'') = 1
   \<and> count_list [unrecognized ''at'' ''isi'', unrecognized ''at'' ''pt''] (unrecognized ''at'' ''pt'') = 1
   \<and> count_list [unrecognized ''at'' ''isi'', unrecognized ''at'' ''pt''] (unrecognized ''pt'' ''isi'') = 0
   \<and> Get (parseQuery [] (Encode (linkQueryParams (itunesRequest ''x'' [])))) ''at'' = ''x''"
    using CreateDurableLink_dependency_warnings [OF run]
    unfolding Let_def fields by simp
  with run show ?thesis by blast
qed

text \<open>
  C6 (as amended). For a successful creation with an empty store id, a non-empty \<^verbatim>\<open>at\<close> and
  empty \<^verbatim>\<open>ct\<close> and \<^verbatim>\<open>mt\<close>: when \<^verbatim>\<open>pt\<close> is empty as well, the \<^verbatim>\<open>UNRECOGNIZED_PARAM\<close>
  warnings are exactly two, both for \<^verbatim>\<open>at\<close> (one from the check of the store id, one from
  the check of \<^verbatim>\<open>pt\<close>); when \<^verbatim>\<open>pt\<close> is set, they are exactly one for \<^verbatim>\<open>at\<close> and one for
  \<^verbatim>\<open>pt\<close>, both from the check of the store id.
\<close>

theorem CreateDurableLink_at_warnings:
  assumes "CreateDurableLink s db rnd params = (Inr response, db', rnd')"
    and "IosAppStoreId (IosParameters (DurableLinkInfo params)) = []"
    and "At (ItunesConnectAnalytics (AnalyticsInfo (DurableLinkInfo params))) \<noteq> []"
    and "Ct (ItunesConnectAnalytics (AnalyticsInfo (DurableLinkInfo params))) = []"
    and "Mt (ItunesConnectAnalytics (AnalyticsInfo (DurableLinkInfo params))) = []"
  shows "(Pt (ItunesConnectAnalytics (AnalyticsInfo (DurableLinkInfo params))) = [] \<longrightarrow>
            filter (\<lambda>w. WarningCode w = ''UNRECOGNIZED_PARAM'') (Warnings response)
              = [unrecognized ''at'' ''isi'', unrecognized ''at'' ''pt'']
            \<and> length (filter (warnsAbout ''at'') (Warnings response)) = 2)
         \<and> (Pt (ItunesConnectAnalytics (AnalyticsInfo (DurableLinkInfo params))) \<noteq> [] \<longrightarrow>
            filter (\<lambda>w. WarningCode w = ''UNRECOGNIZED_PARAM'') (Warnings response)
              = [unrecognized ''at'' ''isi'', unrecognized ''pt'' ''isi'']
            \<and> length (filter (warnsAbout ''at'') (Warnings response)) = 1)"
proof -
  have W: "Warnings response = linkWarnings s params"
    by (rule CreateDurableLink_warnings [OF assms(1)])
  have about: "warnsAbout ''at'' (unrecognized ''at'' ''isi'')"
    "warnsAbout ''at'' (unrecognized ''at'' ''pt'')"
    "\<not> warnsAbout ''at'' (unrecognized ''pt'' ''isi'')"
    "\<not> warnsAbout ''at'' malformed_si"
    by (simp_all add: warnsAbout_def unrecognized_def malformed_si_def)
  show ?thesis
    unfolding W using assms(2-5)
    by (simp add: linkWarnings_def Let_def unrecognized_code malformed_code about)
qed

text \<open>
  The claim as first stated counts one warning for \<^verbatim>\<open>at\<close> in the first case and two in the
  second. The service gives two and one.
\<close>

theorem CreateDurableLink_at_warnings_counterexample:
  "fst (CreateDurableLink exampleService [] 1 (itunesRequest ''x'' []))
     = Inr \<lparr>ShortLink = ''https://x.link/glc9oLURq3'',
             Warnings = [unrecognized ''at'' ''isi'', unrecognized ''at'' ''pt'']\<rparr>
   \<and> length (filter (warnsAbout ''at'') [unrecognized ''at'' ''isi'', unrecognized ''at'' ''pt'']) = 2
   \<and> fst (CreateDurableLink exampleService [] 1 (itunesRequest ''x'' ''y''))
     = Inr \<lparr>ShortLink = ''https://x.link/glc9oLURq3'',
             Warnings = [unrecognized ''at'' ''isi'', unrecognized ''pt'' ''isi'']\<rparr>
   \<and> length (filter (warnsAbout ''at'') [unrecognized ''at'' ''isi'', unrecognized ''pt'' ''isi'']) = 1"
  by code_simp

theorem CreateDurableLink_at_warnings_witness:
  "fst (CreateDurableLink exampleService reuseStore 7 (itunesRequest ''x'' []))
     = Inr \<lparr>ShortLink = ''https://x.link/4bsrIbGHSd'',
             Warnings = [unrecognized ''at'' ''isi'', unrecognized ''at'' ''pt'']\<rparr>
   \<and> length (filter (warnsAbout ''at'')
        (Warnings \<lparr>ShortLink = ''https://x.link/4bsrIbGHSd'',
             Warnings = [unrecognized ''at'' ''isi'', unrecognized ''at'' ''pt'']\<rparr>)) = 2
   \<and> fst (CreateDurableLink exampleService reuseStore 7 (itunesRequest ''x'' ''y''))
     = Inr \<lparr>ShortLink = ''https://x.link/4bsrIbGHSd'',
             Warnings = [unrecognized ''at'' ''isi'', unrecognized ''pt'' ''isi'']\<rparr>
   \<and> length (filter (warnsAbout ''at'')
        (Warnings \<lparr>ShortLink = ''https://x.link/4bsrIbGHSd'',
             Warnings = [unrecognized ''at'' ''isi'', unrecognized ''pt'' ''isi'']\<rparr>)) = 1"
proof -
  obtain r1 db1 rnd1 where run1:
    "CreateDurableLink exampleService reuseStore 7 (itunesRequest ''x'' []) = (Inr r1, db1, rnd1)"
    and r1: "r1 = \<lparr>ShortLink = ''https://x.link/4bsrIbGHSd'',
             Warnings = [unrecognized ''at'' ''isi'', unrecognized ''at'' ''pt'']\<rparr>"
  proof -
    have "CreateDurableLink exampleService reuseStore 7 (itunesRequest ''x'' [])
      = (Inr \<lparr>ShortLink = ''https://x.link/4bsrIbGHSd'',
             Warnings = [unrecognized ''at'' ''isi'', unrecognized ''at'' ''pt'']\<rparr>,
         snd (CreateDurableLink exampleService reuseStore 7 (itunesRequest ''x'' [])))"
      by code_simp
    then show ?thesis using that by (metis prod.collapse)
  qed
  obtain r2 db2 rnd2 where run2:
    "CreateDurableLink exampleService reuseStore 7 (itunesRequest ''x'' ''y'') = (Inr r2, db2, rnd2)"
    and r2: "r2 = \<lparr>ShortLink = ''https://x.link/4bsrIbGHSd'',
             Warnings = [unrecognized ''at'' ''isi'', unrecognized ''pt'' ''isi'']\<rparr>"
  proof -
    have "CreateDurableLink exampleService reuseStore 7 (itunesRequest ''x'' ''y'')
      = (Inr \<lparr>ShortLink = ''https://x.link/4bsrIbGHSd'',
             Warnings = [unrecognized ''at'' ''isi'', unrecognized ''pt'' ''isi'']\<rparr>,
         snd (CreateDurableLink exampleService reuseStore 7 (itunesRequest ''x'' ''y'')))"
      by code_simp
    then show ?thesis using that by (metis prod.collapse)
  qed
  have f1: "IosAppStoreId (IosParameters (DurableLinkInfo (itunesRequest ''x'' []))) = []"
    "At (ItunesConnectAnalytics (AnalyticsInfo (DurableLinkInfo (itunesRequest ''x'' [])))) \<noteq> []"
    "Ct (ItunesConnectAnalytics (AnalyticsInfo (DurableLinkInfo (itunesRequest ''x'' [])))) = []"
    "Mt (ItunesConnectAnalytics (AnalyticsInfo (DurableLinkInfo (itunesRequest ''x'' [])))) = []"
    "Pt (ItunesConnectAnalytics (AnalyticsInfo (DurableLinkInfo (itunesRequest ''x'' [])))) = []"
    by (simp_all add: itunesRequest_def emptyRequest_def)
  have f2: "IosAppStoreId (IosParameters (DurableLinkInfo (itunesRequest ''x'' ''y''))) = []"
    "At (ItunesConnectAnalytics (AnalyticsInfo (DurableLinkInfo (itunesRequest ''x'' ''y'')))) \<noteq> []"
    "Ct (ItunesConnectAnalytics (AnalyticsInfo (DurableLinkInfo (itunesRequest ''x'' ''y'')))) = []"
    "Mt (ItunesConnectAnalytics (AnalyticsInfo (DurableLinkInfo (itunesRequest ''x'' ''y'')))) = []"
    "Pt (ItunesConnectAnalytics (AnalyticsInfo (DurableLinkInfo (itunesRequest ''x'' ''y'')))) \<noteq> []"
    by (simp_all add: itunesRequest_def emptyRequest_def)
  have a: "length (filter (warnsAbout ''at'') (Warnings r1)) = 2"
    using CreateDurableLink_at_warnings [OF run1 f1(1-4)] f1(5) by blast
  have b: "length (filter (warnsAbout ''at'') (Warnings r2)) = 1"
    using CreateDurableLink_at_warnings [OF run2 f2(1-4)] f2(5) by blast
  from run1 run2 a b show ?thesis unfolding r1 r2 by simp
qed

text \<open>
  C10. When the input map binds \<^verbatim>\<open>longDurableLink\<close> to a non-empty string, the request is
  the parse of that long link, and a map that agrees on this key gives the same result
  whatever else it holds. Otherwise (the key absent, not a string, or empty) the map is
  decoded structurally. In both branches a built request with an empty host is rejected
  with \<open>ErrMissingHost\<close> and one with an empty link with \<open>ErrMissingLink\<close>, so a returned
  request has both.
\<close>

theorem PrepareDurableLinkRequest_branches:
  "(input ''longDurableLink'' = Some (AnyString longLink) \<and> longLink \<noteq> [] \<longrightarrow>
      PrepareDurableLinkRequest s input =
        (case ParseLongDurableLink s longLink of
           Inl err \<Rightarrow> Inl err
         | Inr req \<Rightarrow>
             if Host (DurableLinkInfo req) = [] then Inl ErrMissingHost
             else if Link (DurableLinkInfo req) = [] then Inl ErrMissingLink
             else (case ValidateURLScheme (utils s) (Link (DurableLinkInfo req)) of
                     Some err \<Rightarrow> Inl err
                   | None \<Rightarrow> Inr req))
      \<and> (input' ''longDurableLink'' = input ''longDurableLink'' \<longrightarrow>
           PrepareDurableLinkRequest s input' = PrepareDurableLinkRequest s input))
   \<and> ((\<nexists>l. input ''longDurableLink'' = Some (AnyString l) \<and> l \<noteq> []) \<longrightarrow>
        PrepareDurableLinkRequest s input =
          (case json_Decode (lib s) input of
             None \<Rightarrow> Inl ErrInvalidFormat
           | Some req \<Rightarrow>
               if Host (DurableLinkInfo req) = [] then Inl ErrMissingHost
               else if Link (DurableLinkInfo req) = [] then Inl ErrMissingLink
               else (case ValidateURLScheme (utils s) (Link (DurableLinkInfo req)) of
                       Some err \<Rightarrow> Inl err
                     | None \<Rightarrow> Inr req)))
   \<and> (PrepareDurableLinkRequest s input = Inr request \<longrightarrow>
        Host (DurableLinkInfo request) \<noteq> [] \<and> Link (DurableLinkInfo request) \<noteq> [])"
proof (intro conjI impI)
  assume a: "input ''longDurableLink'' = Some (AnyString longLink) \<and> longLink \<noteq> []"
  then show "PrepareDurableLinkRequest s input =
        (case ParseLongDurableLink s longLink of
           Inl err \<Rightarrow> Inl err
         | Inr req \<Rightarrow>
             if Host (DurableLinkInfo req) = [] then Inl ErrMissingHost
             else if Link (DurableLinkInfo req) = [] then Inl ErrMissingLink
             else (case ValidateURLScheme (utils s) (Link (DurableLinkInfo req)) of
                     Some err \<Rightarrow> Inl err
                   | None \<Rightarrow> Inr req))"
    by (simp add: PrepareDurableLinkRequest_long)
  assume "input' ''longDurableLink'' = input ''longDurableLink''"
  with a have "input' ''longDurableLink'' = Some (AnyString longLink)" by simp
  then show "PrepareDurableLinkRequest s input' = PrepareDurableLinkRequest s input"
    using a by (simp add: PrepareDurableLinkRequest_long)
next
  assume "\<nexists>l. input ''longDurableLink'' = Some (AnyString l) \<and> l \<noteq> []"
  then show "PrepareDurableLinkRequest s input =
          (case json_Decode (lib s) input of
             None \<Rightarrow> Inl ErrInvalidFormat
           | Some req \<Rightarrow>
               if Host (DurableLinkInfo req) = [] then Inl ErrMissingHost
               else if Link (DurableLinkInfo req) = [] then Inl ErrMissingLink
               else (case ValidateURLScheme (utils s) (Link (DurableLinkInfo req)) of
                       Some err \<Rightarrow> Inl err
                     | None \<Rightarrow> Inr req))"
    by (rule PrepareDurableLinkRequest_structured)
next
  assume r: "PrepareDurableLinkRequest s input = Inr request"
  then show "Host (DurableLinkInfo request) \<noteq> []"
    by (auto simp: PrepareDurableLinkRequest_def Let_def
        split: option.splits any.splits sum.splits if_splits)
  from r show "Link (DurableLinkInfo request) \<noteq> []"
    by (auto simp: PrepareDurableLinkRequest_def Let_def
        split: option.splits any.splits sum.splits if_splits)
qed


theorem PrepareDurableLinkRequest_branches_witness:
  "PrepareDurableLinkRequest exampleService longLinkBody
     = Inr (plainRequest ''x.link'' ''https://example.com'')
   \<and> PrepareDurableLinkRequest exampleService
         [''longDurableLink'' \<mapsto> AnyString ''https://x.link/?link=https%3A%2F%2Fexample.com'']
     = PrepareDurableLinkRequest exampleService longLinkBody
   \<and> PrepareDurableLinkRequest exampleService
         (structuredBody ''x.link'' ''https://example.com'')
     = Inr (plainRequest ''x.link'' ''https://example.com'')
   \<and> PrepareDurableLinkRequest exampleService (structuredBody [] ''https://example.com'')
     = Inl ErrMissingHost
   \<and> PrepareDurableLinkRequest exampleService (structuredBody ''x.link'' [])
     = Inl ErrMissingLink
   \<and> Host (DurableLinkInfo (plainRequest ''x.link'' ''https://example.com'')) \<noteq> []
   \<and> Link (DurableLinkInfo (plainRequest ''x.link'' ''https://example.com'')) \<noteq> []"
proof -
  let ?L = "''https://x.link/?link=https%3A%2F%2Fexample.com''"
  let ?only = "[''longDurableLink'' \<mapsto> AnyString ?L]"
  have key: "longLinkBody ''longDurableLink'' = Some (AnyString ?L) \<and> ?L \<noteq> []"
    by (simp add: longLinkBody_def)
  have same: "?only ''longDurableLink'' = longLinkBody ''longDurableLink''"
    by (simp add: longLinkBody_def)
  have parsed: "(case ParseLongDurableLink exampleService ?L of
           Inl err \<Rightarrow> Inl err
         | Inr req \<Rightarrow>
             if Host (DurableLinkInfo req) = [] then Inl ErrMissingHost
             else if Link (DurableLinkInfo req) = [] then Inl ErrMissingLink
             else (case ValidateURLScheme (utils exampleService) (Link (DurableLinkInfo req)) of
                     Some err \<Rightarrow> Inl err
                   | None \<Rightarrow> Inr req))
          = Inr (plainRequest ''x.link'' ''https://example.com'')"
    by code_simp
  note long = PrepareDurableLinkRequest_branches
    [where input = longLinkBody and longLink = ?L and s = exampleService and input' = ?only]
  have a: "PrepareDurableLinkRequest exampleService longLinkBody
             = Inr (plainRequest ''x.link'' ''https://example.com'')"
    using long key unfolding parsed by blast
  have b: "PrepareDurableLinkRequest exampleService ?only
             = PrepareDurableLinkRequest exampleService longLinkBody"
    using long key same by blast
  have none: "\<And>h l. \<nexists>x. structuredBody h l ''longDurableLink'' = Some (AnyString x) \<and> x \<noteq> []"
    by (simp add: structuredBody_def)
  have d1: "(case json_Decode (lib exampleService) (structuredBody ''x.link'' ''https://example.com'') of
             None \<Rightarrow> Inl ErrInvalidFormat
           | Some req \<Rightarrow>
               if Host (DurableLinkInfo req) = [] then Inl ErrMissingHost
               else if Link (DurableLinkInfo req) = [] then Inl ErrMissingLink
               else (case ValidateURLScheme (utils exampleService) (Link (DurableLinkInfo req)) of
                       Some err \<Rightarrow> Inl err
                     | None \<Rightarrow> Inr req))
            = Inr (plainRequest ''x.link'' ''https://example.com'')"
    by code_simp
  have d2: "(case json_Decode (lib exampleService) (structuredBody [] ''https://example.com'') of
             None \<Rightarrow> Inl ErrInvalidFormat
           | Some req \<Rightarrow>
               if Host (DurableLinkInfo req) = [] then Inl ErrMissingHost
               else if Link (DurableLinkInfo req) = [] then Inl ErrMissingLink
               else (case ValidateURLScheme (utils exampleService) (Link (DurableLinkInfo req)) of
                       Some err \<Rightarrow> Inl err
                     | None \<Rightarrow> Inr req))
            = Inl ErrMissingHost"
    by code_simp
  have d3: "(case json_Decode (lib exampleService) (structuredBody ''x.link'' []) of
             None \<Rightarrow> Inl ErrInvalidFormat
           | Some req \<Rightarrow>
               if Host (DurableLinkInfo req) = [] then Inl ErrMissingHost
               else if Link (DurableLinkInfo req) = [] then Inl ErrMissingLink
               else (case ValidateURLScheme (utils exampleService) (Link (DurableLinkInfo req)) of
                       Some err \<Rightarrow> Inl err
                     | None \<Rightarrow> Inr req))
            = Inl ErrMissingLink"
    by code_simp
  have c: "PrepareDurableLinkRequest exampleService (structuredBody ''x.link'' ''https://example.com'')
             = Inr (plainRequest ''x.link'' ''https://example.com'')"
    using PrepareDurableLinkRequest_branches
      [where input = "structuredBody ''x.link'' ''https://example.com''" and s = exampleService]
      none [of "''x.link''" "''https://example.com''"]
    unfolding d1 by blast
  have d: "PrepareDurableLinkRequest exampleService (structuredBody [] ''https://example.com'')
             = Inl ErrMissingHost"
    using PrepareDurableLinkRequest_branches
      [where input = "structuredBody [] ''https://example.com''" and s = exampleService]
      none [of "[]" "''https://example.com''"]
    unfolding d2 by blast
  have e: "PrepareDurableLinkRequest exampleService (structuredBody ''x.link'' [])
             = Inl ErrMissingLink"
    using PrepareDurableLinkRequest_branches
      [where input = "structuredBody ''x.link'' []" and s = exampleService]
      none [of "''x.link''" "[]"]
    unfolding d3 by blast
  have f: "Host (DurableLinkInfo (plainRequest ''x.link'' ''https://example.com'')) \<noteq> []
           \<and> Link (DurableLinkInfo (plainRequest ''x.link'' ''https://example.com'')) \<noteq> []"
    using PrepareDurableLinkRequest_branches
      [where input = longLinkBody and s = exampleService
         and request = "plainRequest ''x.link'' ''https://example.com''"] a
    by blast
  from a b c d e f show ?thesis by blast
qed

section \<open>Further properties\<close>

text \<open>
  X1. A preview host resolves as its production host. When two requested URLs have the same
  path and the host of one is the host of the other with \<^verbatim>\<open>preview.\<close> put in front, or with
  \<^verbatim>\<open>-preview\<close> appended to its first label, \<open>ResolveShortPath\<close> returns the same result for
  both (the production host is one that the normalization leaves unchanged).
\<close>

theorem ResolveShortPath_preview_host:
  assumes "url_Parse (lib s) rawURL = Some u"
    and "url_Parse (lib s) previewURL = Some u'"
    and "URL_Path u' = URL_Path u"
    and "removePreviewFromHost (URL_Host u) = URL_Host u"
    and "URL_Host u' = ''preview.'' @ URL_Host u
         \<or> (\<exists>l r. CHR ''.'' \<notin> set l \<and> URL_Host u = l @ ''.'' @ r
                   \<and> URL_Host u' = l @ ''-preview.'' @ r)"
  shows "ResolveShortPath s db previewURL = ResolveShortPath s db rawURL"
proof -
  have "removePreviewFromHost (URL_Host u') = URL_Host u"
    using assms(5) removePreviewFromHost_prefix removePreviewFromHost_label by auto
  then show ?thesis
    using assms(1-4) by (simp add: ResolveShortPath_def Let_def)
qed

theorem ResolveShortPath_preview_host_witness:
  "ResolveShortPath exampleService previewStore ''https://preview.foo.com/abc''
     = ResolveShortPath exampleService previewStore ''https://foo.com/abc''
   \<and> ResolveShortPath exampleService reuseStore ''https://x-preview.link/abc123''
     = ResolveShortPath exampleService reuseStore ''https://x.link/abc123''
   \<and> ResolveShortPath exampleService reuseStore ''https://x.link/abc123''
     = Inr \<lparr>LongLink = ''https://x.link/abc123?link=https%3A%2F%2Fexample.com''\<rparr>"
proof -
  let ?u = "\<lparr>URL_Scheme = ''https'', URL_Host = ''foo.com'', URL_Path = ''/abc'', URL_RawQuery = []\<rparr>"
  let ?u' = "\<lparr>URL_Scheme = ''https'', URL_Host = ''preview.foo.com'', URL_Path = ''/abc'',
              URL_RawQuery = []\<rparr>"
  let ?v = "\<lparr>URL_Scheme = ''https'', URL_Host = ''x.link'', URL_Path = ''/abc123'', URL_RawQuery = []\<rparr>"
  let ?v' = "\<lparr>URL_Scheme = ''https'', URL_Host = ''x-preview.link'', URL_Path = ''/abc123'',
              URL_RawQuery = []\<rparr>"
  have p: "url_Parse (lib exampleService) ''https://foo.com/abc'' = Some ?u"
    "url_Parse (lib exampleService) ''https://preview.foo.com/abc'' = Some ?u'"
    "url_Parse (lib exampleService) ''https://x.link/abc123'' = Some ?v"
    "url_Parse (lib exampleService) ''https://x-preview.link/abc123'' = Some ?v'"
    by code_simp+
  have n: "removePreviewFromHost (URL_Host ?u) = URL_Host ?u"
    "removePreviewFromHost (URL_Host ?v) = URL_Host ?v"
    by code_simp+
  have h1: "URL_Host ?u' = ''preview.'' @ URL_Host ?u
         \<or> (\<exists>l r. CHR ''.'' \<notin> set l \<and> URL_Host ?u = l @ ''.'' @ r
                   \<and> URL_Host ?u' = l @ ''-preview.'' @ r)"
    by simp
  have "CHR ''.'' \<notin> set ''x'' \<and> URL_Host ?v = ''x'' @ ''.'' @ ''link''
          \<and> URL_Host ?v' = ''x'' @ ''-preview.'' @ ''link''"
    by simp
  then have h2: "URL_Host ?v' = ''preview.'' @ URL_Host ?v
         \<or> (\<exists>l r. CHR ''.'' \<notin> set l \<and> URL_Host ?v = l @ ''.'' @ r
                   \<and> URL_Host ?v' = l @ ''-preview.'' @ r)"
    by blast
  have a: "ResolveShortPath exampleService previewStore ''https://preview.foo.com/abc''
     = ResolveShortPath exampleService previewStore ''https://foo.com/abc''"
    by (rule ResolveShortPath_preview_host [OF p(1) p(2) _ n(1) h1]) simp
  have b: "ResolveShortPath exampleService reuseStore ''https://x-preview.link/abc123''
     = ResolveShortPath exampleService reuseStore ''https://x.link/abc123''"
    by (rule ResolveShortPath_preview_host [OF p(3) p(4) _ n(2) h2]) simp
  have c: "ResolveShortPath exampleService reuseStore ''https://x.link/abc123''
     = Inr \<lparr>LongLink = ''https://x.link/abc123?link=https%3A%2F%2Fexample.com''\<rparr>"
    by code_simp
  from a b c show ?thesis by blast
qed

text \<open>
  X2. \<open>ParseLongDurableLink\<close> fails with \<open>ErrInvalidURLFormat\<close> on an unparsable link and with
  \<open>ErrHostInvalid\<close> on an empty host. Otherwise the host is the authority, the link is the
  query value of \<^verbatim>\<open>link\<close>, the suffix option is the value of \<^verbatim>\<open>path\<close>, and the Android package
  name and the iOS store id are the query values of \<^verbatim>\<open>apn\<close> and \<^verbatim>\<open>isi\<close> when these are not
  empty and the configured defaults otherwise.
\<close>

theorem ParseLongDurableLink_fields:
  "(url_Parse (lib s) longLink = None \<longrightarrow> ParseLongDurableLink s longLink = Inl ErrInvalidURLFormat)
   \<and> (url_Parse (lib s) longLink = Some u \<and> URL_Host u = [] \<longrightarrow>
        ParseLongDurableLink s longLink = Inl ErrHostInvalid)
   \<and> (url_Parse (lib s) longLink = Some u \<and> URL_Host u \<noteq> [] \<longrightarrow>
        (\<exists>req. ParseLongDurableLink s longLink = Inr req
           \<and> Host (DurableLinkInfo req) = URL_Host u
           \<and> Link (DurableLinkInfo req) = Get (Query u) ''link''
           \<and> AndroidPackageName (AndroidParameters (DurableLinkInfo req))
               = (if Get (Query u) ''apn'' \<noteq> [] then Get (Query u) ''apn''
                  else (case DefaultAndroidPackageName (App (cfg s)) of Some a \<Rightarrow> a | None \<Rightarrow> []))
           \<and> IosAppStoreId (IosParameters (DurableLinkInfo req))
               = (if Get (Query u) ''isi'' \<noteq> [] then Get (Query u) ''isi''
                  else (case DefaultIosStoreId (App (cfg s)) of Some a \<Rightarrow> a | None \<Rightarrow> []))
           \<and> Option (Suffix req) = Get (Query u) ''path''))"
  by (simp add: ParseLongDurableLink_def Let_def split del: if_split) simp

theorem ParseLongDurableLink_fields_witness:
  "ParseLongDurableLink exampleService (CHR 0x7F # ''x'') = Inl ErrInvalidURLFormat
   \<and> ParseLongDurableLink exampleService ''/?link=https%3A%2F%2Fexample.com'' = Inl ErrHostInvalid
   \<and> (\<exists>req. ParseLongDurableLink defaultsService ''https://x.link/?path=SHORT&isi=42'' = Inr req
          \<and> Host (DurableLinkInfo req) = ''x.link''
          \<and> Link (DurableLinkInfo req) = []
          \<and> AndroidPackageName (AndroidParameters (DurableLinkInfo req)) = ''com.example.app''
          \<and> IosAppStoreId (IosParameters (DurableLinkInfo req)) = ''42''
          \<and> Option (Suffix req) = ''SHORT'')"
proof -
  let ?u = "\<lparr>URL_Scheme = [], URL_Host = [], URL_Path = ''/'',
             URL_RawQuery = ''link=https%3A%2F%2Fexample.com''\<rparr>"
  let ?v = "\<lparr>URL_Scheme = ''https'', URL_Host = ''x.link'', URL_Path = ''/'',
             URL_RawQuery = ''path=SHORT&isi=42''\<rparr>"
  have p: "url_Parse (lib exampleService) (CHR 0x7F # ''x'') = None"
    "url_Parse (lib exampleService) ''/?link=https%3A%2F%2Fexample.com'' = Some ?u \<and> URL_Host ?u = []"
    "url_Parse (lib defaultsService) ''https://x.link/?path=SHORT&isi=42'' = Some ?v \<and> URL_Host ?v \<noteq> []"
    by code_simp+
  have q: "Get (Query ?v) ''link'' = []" "Get (Query ?v) ''apn'' = []" "Get (Query ?v) ''isi'' = ''42''"
    "Get (Query ?v) ''path'' = ''SHORT''"
    "DefaultAndroidPackageName (App (cfg defaultsService)) = Some ''com.example.app''"
    by code_simp+
  have a: "ParseLongDurableLink exampleService (CHR 0x7F # ''x'') = Inl ErrInvalidURLFormat"
    using ParseLongDurableLink_fields [where s = exampleService and longLink = "CHR 0x7F # ''x''"] p(1)
    by blast
  have b: "ParseLongDurableLink exampleService ''/?link=https%3A%2F%2Fexample.com'' = Inl ErrHostInvalid"
    using ParseLongDurableLink_fields
      [where s = exampleService and longLink = "''/?link=https%3A%2F%2Fexample.com''" and u = ?u] p(2)
    by blast
  have c: "\<exists>req. ParseLongDurableLink defaultsService ''https://x.link/?path=SHORT&isi=42'' = Inr req
          \<and> Host (DurableLinkInfo req) = ''x.link''
          \<and> Link (DurableLinkInfo req) = []
          \<and> AndroidPackageName (AndroidParameters (DurableLinkInfo req)) = ''com.example.app''
          \<and> IosAppStoreId (IosParameters (DurableLinkInfo req)) = ''42''
          \<and> Option (Suffix req) = ''SHORT''"
    using ParseLongDurableLink_fields
      [where s = defaultsService and longLink = "''https://x.link/?path=SHORT&isi=42''" and u = ?v] p(3)
    unfolding q by simp
  from a b c show ?thesis by blast
qed

text \<open>
  X3. The query of a request always holds the key \<^verbatim>\<open>link\<close> with the target link, and holds an
  optional key, with the value of its field, exactly when the field is not empty.
\<close>

theorem linkQueryParams_inclusion:
  "(''link'', [Link (DurableLinkInfo params)]) \<in> set (linkQueryParams params)
   \<and> (\<forall>p \<in> set (optionalFields params).
        (snd p \<noteq> [] \<longrightarrow> (fst p, [snd p]) \<in> set (linkQueryParams params))
        \<and> (snd p = [] \<longrightarrow> fst p \<notin> fst ` set (linkQueryParams params)))"
proof (intro conjI ballI impI)
  show "(''link'', [Link (DurableLinkInfo params)]) \<in> set (linkQueryParams params)"
    by (simp add: linkQueryParams_pairs queryPairs_def)
next
  fix p assume "p \<in> set (optionalFields params)" and "snd p \<noteq> []"
  then have "p \<in> set (queryPairs params)" by (simp add: queryPairs_def)
  then show "(fst p, [snd p]) \<in> set (linkQueryParams params)"
    by (auto simp: linkQueryParams_pairs)
next
  fix p assume p: "p \<in> set (optionalFields params)" and empty: "snd p = []"
  show "fst p \<notin> fst ` set (linkQueryParams params)"
  proof
    assume "fst p \<in> fst ` set (linkQueryParams params)"
    then obtain q where q: "q \<in> set (queryPairs params)" and k: "fst q = fst p"
      by (auto simp: linkQueryParams_pairs)
    from q have qa: "q \<in> set (allFields params)" and qv: "fst q = ''link'' \<or> snd q \<noteq> []"
      by (auto simp: queryPairs_filter)
    from p have pa: "p \<in> set (allFields params)" by (simp add: allFields_def)
    have "q = p"
      using allFields_keys_distinct [of params] qa pa k
      by (metis eq_key_imp_eq_value prod.collapse)
    moreover have "fst p \<noteq> ''link''"
    proof -
      from p have "fst p \<in> set (map fst (optionalFields params))" by simp
      then show ?thesis unfolding optionalFields_keys by auto
    qed
    ultimately show False using qv empty by simp
  qed
qed

theorem linkQueryParams_inclusion_witness:
  "linkQueryParams (androidRequest ''SHORT'')
     = [(''link'', [''https://example.com'']), (''apn'', [''com.example.app''])]
   \<and> (''apn'', ''com.example.app'') \<in> set (optionalFields (androidRequest ''SHORT''))
   \<and> (''apn'', [''com.example.app'']) \<in> set (linkQueryParams (androidRequest ''SHORT''))
   \<and> (''afl'', []) \<in> set (optionalFields (androidRequest ''SHORT''))
   \<and> ''afl'' \<notin> fst ` set (linkQueryParams (androidRequest ''SHORT''))"
proof -
  have v: "linkQueryParams (androidRequest ''SHORT'')
     = [(''link'', [''https://example.com'']), (''apn'', [''com.example.app''])]"
    by code_simp
  have m: "(''apn'', ''com.example.app'') \<in> set (optionalFields (androidRequest ''SHORT''))"
    "(''afl'', []) \<in> set (optionalFields (androidRequest ''SHORT''))"
    by code_simp+
  have every: "\<forall>p \<in> set (optionalFields (androidRequest ''SHORT'')).
        (snd p \<noteq> [] \<longrightarrow> (fst p, [snd p]) \<in> set (linkQueryParams (androidRequest ''SHORT'')))
        \<and> (snd p = [] \<longrightarrow> fst p \<notin> fst ` set (linkQueryParams (androidRequest ''SHORT'')))"
    using linkQueryParams_inclusion [of "androidRequest ''SHORT''"] by (rule conjunct2)
  have a: "(''apn'', [''com.example.app'']) \<in> set (linkQueryParams (androidRequest ''SHORT''))"
    using bspec [OF every m(1)] by simp
  have b: "''afl'' \<notin> fst ` set (linkQueryParams (androidRequest ''SHORT''))"
    using bspec [OF every m(2)] by simp
  from v m a b show ?thesis by blast
qed

text \<open>
  X4. In the result of a successful creation the warning \<^verbatim>\<open>MALFORMED_PARAM\<close> for \<^verbatim>\<open>si\<close> occurs
  once when the social image link is set and is not a URL, and not otherwise; the image
  link is in the encoded query in both cases.
\<close>

theorem CreateDurableLink_malformed_image:
  assumes "CreateDurableLink s db rnd params = (Inr response, db', rnd')"
  shows "count_list (Warnings response) malformed_si
           = (if SocialImageLink (SocialMetaTagInfo (DurableLinkInfo params)) \<noteq> []
                 \<and> \<not> IsURL (utils s) (SocialImageLink (SocialMetaTagInfo (DurableLinkInfo params)))
              then 1 else 0)
         \<and> Get (parseQuery [] (Encode (linkQueryParams params))) ''si''
           = SocialImageLink (SocialMetaTagInfo (DurableLinkInfo params))"
proof -
  have W: "Warnings response = linkWarnings s params"
    by (rule CreateDurableLink_warnings [OF assms])
  have "count_list (linkWarnings s params) malformed_si
           = (if SocialImageLink (SocialMetaTagInfo (DurableLinkInfo params)) \<noteq> []
                 \<and> \<not> IsURL (utils s) (SocialImageLink (SocialMetaTagInfo (DurableLinkInfo params)))
              then 1 else 0)"
    by (simp add: linkWarnings_def Let_def unrecognized_def malformed_si_def)
  moreover have "Get (parseQuery [] (Encode (linkQueryParams params))) ''si''
           = SocialImageLink (SocialMetaTagInfo (DurableLinkInfo params))"
    by (simp add: Get_parsed_field allFields_def optionalFields_def Let_def)
  ultimately show ?thesis unfolding W by simp
qed

theorem CreateDurableLink_malformed_image_witness:
  "CreateDurableLink exampleService [] 1 imageRequest
     = (Inr \<lparr>ShortLink = ''https://x.link/glc9oLURq3'', Warnings = [malformed_si]\<rparr>,
        [\<lparr>rec_host = ''x.link'', rec_path = ''glc9oLURq3'',
          rec_query = ''link=https%3A%2F%2Fexample.com&si=logo.png'', rec_unguessable = True\<rparr>],
        267834847)
   \<and> count_list [malformed_si] malformed_si = 1
   \<and> Get (parseQuery [] (Encode (linkQueryParams imageRequest))) ''si'' = ''logo.png''"
proof -
  have run: "CreateDurableLink exampleService [] 1 imageRequest
     = (Inr \<lparr>ShortLink = ''https://x.link/glc9oLURq3'', Warnings = [malformed_si]\<rparr>,
        [\<lparr>rec_host = ''x.link'', rec_path = ''glc9oLURq3'',
          rec_query = ''link=https%3A%2F%2Fexample.com&si=logo.png'', rec_unguessable = True\<rparr>],
        267834847)"
    by code_simp
  have f: "SocialImageLink (SocialMetaTagInfo (DurableLinkInfo imageRequest)) = ''logo.png''"
    "\<not> IsURL (utils exampleService) ''logo.png''"
    by code_simp+
  have "count_list [malformed_si] malformed_si = 1
   \<and> Get (parseQuery [] (Encode (linkQueryParams imageRequest))) ''si'' = ''logo.png''"
    using CreateDurableLink_malformed_image [OF run] f by simp
  with run show ?thesis by blast
qed

text \<open>
  X5. The end-to-end example of the spec on the example service: a request for host
  \<^verbatim>\<open>x.link\<close>, target \<^verbatim>\<open>https://example.com\<close> and a short suffix yields a link with a
  six-character path and no warnings; resolving that link returns the long link with the
  encoded target; creating the same request again returns the same link and stores nothing.
\<close>

theorem create_then_resolve_example:
  "CreateDurableLink exampleService [] 1 exampleRequest
     = (Inr \<lparr>ShortLink = ''https://x.link/glc9oL'', Warnings = []\<rparr>,
        [\<lparr>rec_host = ''x.link'', rec_path = ''glc9oL'',
          rec_query = ''link=https%3A%2F%2Fexample.com'', rec_unguessable = False\<rparr>],
        368800899)
   \<and> ResolveShortPath exampleService
        [\<lparr>rec_host = ''x.link'', rec_path = ''glc9oL'',
          rec_query = ''link=https%3A%2F%2Fexample.com'', rec_unguessable = False\<rparr>]
        ''https://x.link/glc9oL''
     = Inr \<lparr>LongLink = ''https://x.link/glc9oL?link=https%3A%2F%2Fexample.com''\<rparr>
   \<and> CreateDurableLink exampleService
        [\<lparr>rec_host = ''x.link'', rec_path = ''glc9oL'',
          rec_query = ''link=https%3A%2F%2Fexample.com'', rec_unguessable = False\<rparr>]
        368800899 exampleRequest
     = (Inr \<lparr>ShortLink = ''https://x.link/glc9oL'', Warnings = []\<rparr>,
        [\<lparr>rec_host = ''x.link'', rec_path = ''glc9oL'',
          rec_query = ''link=https%3A%2F%2Fexample.com'', rec_unguessable = False\<rparr>],
        368800899)"
  by code_simp

end
